theory Spec2Isabelle
  imports Complex_Main "HOL-Library.Log_Nat" "HOL-Library.Sublist"
begin

section \<open>Values shared by the models\<close>

text \<open>
  The services signal every failure by throwing \<open>new ApiError(statusCode, message)\<close>;
  a thrown error is the \<open>Inl\<close> branch of the result.
\<close>

datatype api_error = ApiError nat string

text \<open>
  A JavaScript Number is an IEEE-754 binary64 value. The finite ones are rationals, so
  \<open>number\<close> is \<open>rat\<close> and every arithmetic operator of the source rounds its exact
  result with \<open>fl\<close>: to the nearest value with a 53-bit significand, ties to the even
  significand, with the subnormal spacing \<open>2 powi - 1074\<close> at the bottom of the range.
  Magnitudes from \<open>2 ^ 1024\<close> on (where the source would produce \<open>Infinity\<close>) are
  outside the model.
\<close>

type_synonym number = rat

definition round_half_even :: "rat \<Rightarrow> int" where
  "round_half_even x =
     (let f = \<lfloor>x\<rfloor>; d = x - of_int f
      in if d < 1 / 2 then f else if 1 / 2 < d then f + 1 else if even f then f else f + 1)"

definition ilog2 :: "rat \<Rightarrow> int" where
  "ilog2 x =
     (let (p, q) = quotient_of \<bar>x\<bar>;
          d = int (floorlog 2 (nat p)) - int (floorlog 2 (nat q))
      in if 2 powi d \<le> \<bar>x\<bar> then d else d - 1)"

definition fl :: "rat \<Rightarrow> number" where
  "fl x =
     (if x = 0 then 0
      else let e = max (ilog2 x - 52) (- 1074); u = 2 powi e
           in of_int (round_half_even (x / u)) * u)"

definition js_add :: "number \<Rightarrow> number \<Rightarrow> number" where
  "js_add a b = fl (a + b)"

definition js_sub :: "number \<Rightarrow> number \<Rightarrow> number" where
  "js_sub a b = fl (a - b)"

definition js_mul :: "number \<Rightarrow> number \<Rightarrow> number" where
  "js_mul a b = fl (a * b)"

text \<open>Division is only used with a divisor that the source has shown to be non-zero.\<close>

definition js_div :: "number \<Rightarrow> number \<Rightarrow> number" where
  "js_div a b = fl (a / b)"

text \<open>
  What a call can throw: an \<open>ApiError\<close>, a JavaScript \<open>TypeError\<close>, a Mongoose
  \<open>ValidationError\<close>, the server's duplicate-key error (code 11000) from a unique index
  (here \<open>_id\<close> and \<open>{ project: 1, vendor: 1 }\<close>), another error of the server (its
  \<open>name\<close> is \<open>MongoServerError\<close> too), or any other rejection of a persistence call.
\<close>

datatype thrown =
  ApiErr api_error | TypeError | ValidationError | DuplicateKey | MongoServerError | OtherError

section \<open>The bid state machine (\<open>bidSchema.methods.updateStatus\<close>)\<close>

text \<open>
  Status values are the strings of the source. A history entry is
  \<open>{status, timestamp, reason}\<close>; \<open>reason\<close> is absent in the entries the save hook
  pushes. Times are milliseconds since the epoch, read from the clock by \<open>new Date()\<close>:
  the reading is the parameter \<open>now\<close> of each operation. A required \<open>Date\<close> path of
  a document is \<open>None\<close> when the value given for it is no valid date, which the
  validation at the save rejects.
\<close>

record history_entry =
  h_status :: string
  h_timestamp :: number
  h_reason :: "string option"

record milestone =
  m_title :: string
  expectedCompletionDate :: "number option"
  paymentPercentage :: number

record cost_item =
  category :: string
  description :: string
  amount :: number
  quantity :: "number option"

record negotiation =
  n_initiator :: string
  n_type :: string
  n_message :: "string option"
  n_status :: string
  n_timestamp :: number

text \<open>
  The Bid document, with the paths the operations below read or write. \<open>proposal\<close>'s
  fixed texts, \<open>team\<close> and \<open>previousWork\<close> are constants of \<open>submitBid\<close> that nothing
  else reads, and are left out.
\<close>

record bid =
  bid_id :: string
  bid_project :: string
  bid_vendor :: string
  proposedCost_total :: number
  proposedCost_breakdown :: "cost_item list"
  proposedStartDate :: "number option"
  estimatedDuration_value :: number
  milestones :: "milestone list"
  proposal_summary :: string
  negotiations :: "negotiation list"
  status_current :: string
  status_history :: "history_entry list"
  submittedAt :: "number option"
  lastUpdated :: number

text \<open>
  \<open>validTransitions\<close> is the object literal of the method, indexed by the current
  status. One of the six states gives its own list. A name that a plain object inherits
  from \<open>Object.prototype\<close> gives that inherited member, a function or an object that has
  no \<open>includes\<close>, so the call throws a \<open>TypeError\<close>. Any other key gives \<open>undefined\<close>,
  and \<open>undefined?.includes(..)\<close> is falsy.
\<close>

datatype property_lookup = Own "string list" | Inherited | Undefined

definition Object_prototype_names :: "string list" where
  "Object_prototype_names =
     [''constructor'', ''__proto__'', ''hasOwnProperty'', ''isPrototypeOf'',
      ''propertyIsEnumerable'', ''toLocaleString'', ''toString'', ''valueOf'',
      ''__defineGetter__'', ''__defineSetter__'', ''__lookupGetter__'', ''__lookupSetter__'']"

definition validTransitions :: "string \<Rightarrow> property_lookup" where
  "validTransitions current =
     (if current = ''DRAFT'' then Own [''PENDING'', ''WITHDRAWN'']
      else if current = ''PENDING'' then Own [''IN_REVIEW'', ''WITHDRAWN'', ''REJECTED'']
      else if current = ''IN_REVIEW'' then Own [''ACCEPTED'', ''REJECTED'', ''PENDING'']
      else if current = ''ACCEPTED'' then Own [''IN_REVIEW'']
      else if current = ''REJECTED'' then Own [''IN_REVIEW'']
      else if current = ''WITHDRAWN'' then Own [''PENDING'']
      else if List.member Object_prototype_names current then Inherited
      else Undefined)"

text \<open>
  The method up to its \<open>await this.save()\<close>: the check, the assignment and the push.
  Nothing is assigned before a \<open>throw\<close>.
\<close>

definition updateStatus_doc ::
  "bid \<Rightarrow> string \<Rightarrow> string option \<Rightarrow> number \<Rightarrow> thrown + bid" where
  "updateStatus_doc b newStatus reason now =
     (case validTransitions (status_current b) of
        Inherited \<Rightarrow> Inl TypeError
      | Undefined \<Rightarrow>
          Inl (ApiErr (ApiError 400
            (''Invalid status transition from '' @ status_current b @ '' to '' @ newStatus)))
      | Own allowed \<Rightarrow>
          if \<not> List.member allowed newStatus
          then Inl (ApiErr (ApiError 400
                 (''Invalid status transition from '' @ status_current b @ '' to ''
                    @ newStatus)))
          else Inr (b\<lparr>status_current := newStatus,
                      status_history := status_history b @
                        [\<lparr>h_status = newStatus, h_timestamp = now, h_reason = reason\<rparr>]\<rparr>))"

section \<open>Documents and the persistence layer\<close>

record vendor_profile =
  vendor_id :: string
  vendor_user :: string
  vendor_status :: string
  vendor_services :: "string list option"
  yearsInBusiness :: number
  ratings_average :: number
  isVerified :: bool

record client_profile =
  client_id :: string
  client_user :: string

text \<open>
  The Project document. \<open>minExperience\<close> and \<open>minRating\<close> are
  \<open>preferences?.vendorRequirements?.minExperience\<close> and \<open>...?.minRating\<close>: \<open>None\<close> when
  the optional chain ends in \<open>undefined\<close>.
\<close>

record project =
  project_id :: string
  project_client :: string
  projectType :: string
  project_status_current :: string
  project_status_history :: "history_entry list"
  minExperience :: "number option"
  minRating :: "number option"
  updatedAt :: number
  lastActivityAt :: number

record database =
  bids :: "bid list"
  projects :: "project list"
  vendorProfiles :: "vendor_profile list"
  clientProfiles :: "client_profile list"

definition Bid_findById :: "database \<Rightarrow> string \<Rightarrow> bid option" where
  "Bid_findById db i = find (\<lambda>b. bid_id b = i) (bids db)"

definition Project_findById :: "database \<Rightarrow> string \<Rightarrow> project option" where
  "Project_findById db i = find (\<lambda>p. project_id p = i) (projects db)"

text \<open>\<open>Project.findOne({ _id: projectId, client: clientProfileId })\<close>\<close>

definition Project_findOwned :: "database \<Rightarrow> string \<Rightarrow> string \<Rightarrow> project option" where
  "Project_findOwned db i c =
     find (\<lambda>p. project_id p = i \<and> project_client p = c) (projects db)"

text \<open>\<open>VendorProfile.findOne({ user: vendorId })\<close>\<close>

definition VendorProfile_findByUser :: "database \<Rightarrow> string \<Rightarrow> vendor_profile option" where
  "VendorProfile_findByUser db u = find (\<lambda>v. vendor_user v = u) (vendorProfiles db)"

text \<open>\<open>_getClientProfile\<close>: \<open>ClientProfile.findOne({ user: clientId })\<close>, 404 when absent.\<close>

definition getClientProfile :: "database \<Rightarrow> string \<Rightarrow> api_error + client_profile" where
  "getClientProfile db clientId =
     (case find (\<lambda>c. client_user c = clientId) (clientProfiles db) of
        None \<Rightarrow> Inl (ApiError 404 ''Client profile not found'')
      | Some c \<Rightarrow> Inr c)"

subsection \<open>Schema validation on save\<close>

text \<open>
  \<open>save()\<close> validates the document against the schema before it writes (no call of the
  source sets \<open>validateBeforeSave\<close> or \<open>validateModifiedOnly\<close>). These are the validators
  of \<open>bidSchema\<close> on the paths of the model; the one on \<open>proposedStartDate\<close> compares
  with the clock.
\<close>

definition bid_states :: "string list" where
  "bid_states = [''DRAFT'', ''PENDING'', ''IN_REVIEW'', ''ACCEPTED'', ''REJECTED'', ''WITHDRAWN'']"

definition validCostItem :: "cost_item \<Rightarrow> bool" where
  "validCostItem c =
     (List.member [''labor'', ''materials'', ''equipment'', ''permits'', ''overhead'', ''other'']
        (category c)
      \<and> description c \<noteq> []
      \<and> 0 \<le> amount c
      \<and> (case quantity c of None \<Rightarrow> True | Some q \<Rightarrow> 1 \<le> q))"

definition validMilestone :: "milestone \<Rightarrow> bool" where
  "validMilestone m =
     (m_title m \<noteq> [] \<and> expectedCompletionDate m \<noteq> None
      \<and> 0 \<le> paymentPercentage m \<and> paymentPercentage m \<le> 100)"

definition validNegotiation :: "negotiation \<Rightarrow> bool" where
  "validNegotiation n =
     (List.member [''client'', ''vendor''] (n_initiator n)
      \<and> List.member [''cost'', ''timeline'', ''scope'', ''other''] (n_type n)
      \<and> List.member [''pending'', ''accepted'', ''rejected''] (n_status n))"

definition validateBid :: "number \<Rightarrow> bid \<Rightarrow> bool" where
  "validateBid now b =
     (0 \<le> proposedCost_total b
      \<and> list_all validCostItem (proposedCost_breakdown b)
      \<and> (case proposedStartDate b of None \<Rightarrow> False | Some start \<Rightarrow> now \<le> start)
      \<and> 1 \<le> estimatedDuration_value b
      \<and> list_all validMilestone (milestones b)
      \<and> 100 \<le> length (proposal_summary b)
      \<and> list_all validNegotiation (negotiations b)
      \<and> List.member bid_states (status_current b)
      \<and> list_all (\<lambda>h. List.member bid_states (h_status h)) (status_history b))"

subsection \<open>\<open>bidSchema.pre('save')\<close>\<close>

text \<open>
  \<open>isModified('status.current')\<close> holds for a loaded document when the value differs
  from the one it was loaded with. Every operation below loads a document and saves it
  before it returns, so the loaded value is the stored one.
\<close>

definition bid_isModified_status :: "database \<Rightarrow> bid \<Rightarrow> bool" where
  "bid_isModified_status db b =
     (case Bid_findById db (bid_id b) of
        None \<Rightarrow> False
      | Some stored \<Rightarrow> status_current stored \<noteq> status_current b)"

definition bid_pre_save :: "bool \<Rightarrow> number \<Rightarrow> bid \<Rightarrow> bid" where
  "bid_pre_save statusModified now b =
     (let b1 = b\<lparr>lastUpdated := now\<rparr>
      in if statusModified
         then let b2 = b1\<lparr>status_history := status_history b1 @
                          [\<lparr>h_status = status_current b1, h_timestamp = now, h_reason = None\<rparr>]\<rparr>
              in if status_current b2 = ''PENDING'' \<and> submittedAt b2 = None
                 then b2\<lparr>submittedAt := Some now\<rparr>
                 else b2
         else b1)"

definition replace_bid :: "bid \<Rightarrow> bid list \<Rightarrow> bid list" where
  "replace_bid b bs = map (\<lambda>x. if bid_id x = bid_id b then b else x) bs"

text \<open>The insert of a new document, under the two unique indexes.\<close>

definition bid_insert :: "database \<Rightarrow> bid \<Rightarrow> thrown + database" where
  "bid_insert db b =
     (if list_ex (\<lambda>x. bid_id x = bid_id b
                      \<or> (bid_project x = bid_project b \<and> bid_vendor x = bid_vendor b)) (bids db)
      then Inl DuplicateKey
      else Inr (db\<lparr>bids := bids db @ [b]\<rparr>))"

text \<open>The update of a loaded document; Mongoose rejects it when the document is gone.\<close>

definition bid_update :: "database \<Rightarrow> bid \<Rightarrow> thrown + database" where
  "bid_update db b =
     (case Bid_findById db (bid_id b) of
        None \<Rightarrow> Inl OtherError
      | Some stored \<Rightarrow> Inr (db\<lparr>bids := replace_bid b (bids db)\<rparr>))"

text \<open>
  \<open>bid.save()\<close>: validation, the hook, the write. \<open>isNew\<close> tells a document made by
  \<open>new Bid(..)\<close>, whose \<open>status.current\<close> was set by the constructor and so counts as
  modified, from a loaded one. It returns the document as saved.
\<close>

definition bid_save ::
  "bool \<Rightarrow> number \<Rightarrow> database \<Rightarrow> bid \<Rightarrow> thrown + (bid \<times> database)" where
  "bid_save isNew now db b =
     (if \<not> validateBid now b then Inl ValidationError
      else let b' = bid_pre_save (isNew \<or> bid_isModified_status db b) now b
           in case (if isNew then bid_insert db b' else bid_update db b') of
                Inl e \<Rightarrow> Inl e
              | Inr db' \<Rightarrow> Inr (b', db'))"

text \<open>\<open>bid.updateStatus(newStatus, reason)\<close> with its \<open>await this.save()\<close>.\<close>

definition updateStatus ::
  "number \<Rightarrow> database \<Rightarrow> bid \<Rightarrow> string \<Rightarrow> string option \<Rightarrow> thrown + (bid \<times> database)" where
  "updateStatus now db b newStatus reason =
     (case updateStatus_doc b newStatus reason now of
        Inl e \<Rightarrow> Inl e
      | Inr b' \<Rightarrow> bid_save False now db b')"

text \<open>\<open>bid.addNegotiation(negotiationData)\<close>: the pushed entry gets the schema's default status.\<close>

record negotiation_data =
  nd_type :: string
  nd_message :: "string option"

definition addNegotiation ::
  "number \<Rightarrow> database \<Rightarrow> bid \<Rightarrow> negotiation_data \<Rightarrow> string
     \<Rightarrow> thrown + (negotiation \<times> bid \<times> database)" where
  "addNegotiation now db b nd initiator =
     (let n = \<lparr>n_initiator = initiator, n_type = nd_type nd, n_message = nd_message nd,
                n_status = ''pending'', n_timestamp = now\<rparr>
      in case bid_save False now db (b\<lparr>negotiations := negotiations b @ [n]\<rparr>) of
           Inl e \<Rightarrow> Inl e
         | Inr (b', db') \<Rightarrow> Inr (last (negotiations b'), b', db'))"

subsection \<open>The Project document's hook and save\<close>

definition project_states :: "string list" where
  "project_states =
     [''DRAFT'', ''OPEN'', ''IN_REVIEW'', ''IN_PROGRESS'', ''ON_HOLD'', ''COMPLETED'', ''CANCELLED'']"

text \<open>
  Of \<open>projectSchema\<close>'s validators, the ones on the paths of the model: the status
  enums, and the one on \<open>client\<close> that looks the profile up.
\<close>

definition validateProject :: "database \<Rightarrow> project \<Rightarrow> bool" where
  "validateProject db p =
     (list_ex (\<lambda>c. client_id c = project_client p) (clientProfiles db)
      \<and> List.member project_states (project_status_current p)
      \<and> list_all (\<lambda>h. List.member project_states (h_status h)) (project_status_history p)
      \<and> (case minExperience p of None \<Rightarrow> True | Some m \<Rightarrow> 0 \<le> m)
      \<and> (case minRating p of None \<Rightarrow> True | Some m \<Rightarrow> 0 \<le> m \<and> m \<le> 5))"

definition project_isModified_status :: "database \<Rightarrow> project \<Rightarrow> bool" where
  "project_isModified_status db p =
     (case Project_findById db (project_id p) of
        None \<Rightarrow> True
      | Some stored \<Rightarrow> project_status_current stored \<noteq> project_status_current p)"

definition project_pre_save :: "bool \<Rightarrow> number \<Rightarrow> project \<Rightarrow> project" where
  "project_pre_save statusModified now p =
     (let p1 = p\<lparr>updatedAt := now, lastActivityAt := now\<rparr>
      in if statusModified
         then p1\<lparr>project_status_history := project_status_history p1 @
                    [\<lparr>h_status = project_status_current p1, h_timestamp = now, h_reason = None\<rparr>]\<rparr>
         else p1)"

definition replace_project :: "project \<Rightarrow> project list \<Rightarrow> project list" where
  "replace_project p ps = map (\<lambda>x. if project_id x = project_id p then p else x) ps"

text \<open>
  \<open>project.save()\<close> of a stored project. It returns the document as saved and the
  collection as the write leaves it.
\<close>

definition project_save ::
  "number \<Rightarrow> database \<Rightarrow> project \<Rightarrow> thrown + (project \<times> project list)" where
  "project_save now db p =
     (if \<not> validateProject db p then Inl ValidationError
      else let p' = project_pre_save (project_isModified_status db p) now p
           in Inr (p', replace_project p' (projects db)))"

text \<open>\<open>projectSchema.methods.updateStatus\<close>: no transition table, a no-op on the same status.\<close>

definition project_updateStatus ::
  "number \<Rightarrow> database \<Rightarrow> project \<Rightarrow> string \<Rightarrow> string option
     \<Rightarrow> thrown + (project \<times> project list)" where
  "project_updateStatus now db p newStatus reason =
     (if project_status_current p \<noteq> newStatus
      then project_save now db
             (p\<lparr>project_status_current := newStatus,
                project_status_history := project_status_history p @
                  [\<lparr>h_status = newStatus, h_timestamp = now, h_reason = reason\<rparr>]\<rparr>)
      else Inr (p, projects db))"

section \<open>The bid service\<close>

subsection \<open>Helpers and constants\<close>

text \<open>
  \<open>sanitizeText\<close>: a falsy text (the empty string) is returned as it is; otherwise
  every \<open><\<close> and \<open>>\<close> is removed and the text is trimmed. A string is a sequence of
  code units below 256; of the white space that \<open>trim()\<close> removes these are the space,
  the controls 9 to 13 and the no-break space 160.
\<close>

definition is_space :: "char \<Rightarrow> bool" where
  "is_space c =
     List.member [CHR '' '', CHR 0x09, CHR 0x0A, CHR 0x0B, CHR 0x0C, CHR 0x0D, CHR 0xA0] c"

definition trim :: "string \<Rightarrow> string" where
  "trim s = rev (dropWhile is_space (rev (dropWhile is_space s)))"

definition sanitizeText :: "string \<Rightarrow> string" where
  "sanitizeText text =
     (if text = [] then text
      else trim (filter (\<lambda>c. c \<noteq> CHR ''<'' \<and> c \<noteq> CHR ''>'') text))"

text \<open>\<open>BID_CONSTANTS\<close>: a decimal literal denotes the nearest binary64 value.\<close>

definition LABOR_PERCENTAGE :: number where "LABOR_PERCENTAGE = fl (6 / 10)"
definition MATERIALS_PERCENTAGE :: number where "MATERIALS_PERCENTAGE = fl (3 / 10)"
definition OVERHEAD_PERCENTAGE :: number where "OVERHEAD_PERCENTAGE = fl (1 / 10)"
definition FOUNDATION_PERCENTAGE :: number where "FOUNDATION_PERCENTAGE = fl (3 / 10)"
definition FOUNDATION_PAYMENT :: number where "FOUNDATION_PAYMENT = 30"
definition STRUCTURE_PERCENTAGE :: number where "STRUCTURE_PERCENTAGE = fl (7 / 10)"
definition STRUCTURE_PAYMENT :: number where "STRUCTURE_PAYMENT = 40"
definition COMPLETION_PAYMENT :: number where "COMPLETION_PAYMENT = 30"
definition CACHE_TTL :: number where "CACHE_TTL = 300000"
definition CACHE_MAX_SIZE :: nat where "CACHE_MAX_SIZE = 1000"

subsection \<open>\<open>_validateVendorEligibility\<close>\<close>

text \<open>
  \<open>undefined > x\<close> is false, so an absent threshold rejects nobody. The function reads
  \<open>status\<close>, \<open>services\<close>, \<open>experience.yearsInBusiness\<close> and \<open>ratings.average\<close> of the
  vendor, and nothing else.
\<close>

definition validateVendorEligibility :: "vendor_profile \<Rightarrow> project \<Rightarrow> api_error + bool" where
  "validateVendorEligibility vendor project =
     (if vendor_status vendor \<noteq> ''active''
      then Inl (ApiError 400 ''Vendor account is not active'')
      else if (case vendor_services vendor of
                 None \<Rightarrow> False
               | Some services \<Rightarrow>
                   0 < length services \<and> \<not> List.member services ''NA''
                   \<and> \<not> List.member services (projectType project))
      then Inl (ApiError 400 ''Project type does not match vendor services'')
      else if (case minExperience project of
                 None \<Rightarrow> False | Some m \<Rightarrow> yearsInBusiness vendor < m)
      then Inl (ApiError 400 ''Vendor does not meet minimum experience requirement'')
      else if (case minRating project of
                 None \<Rightarrow> False | Some m \<Rightarrow> ratings_average vendor < m)
      then Inl (ApiError 400 ''Vendor does not meet minimum rating requirement'')
      else Inr True)"

subsection \<open>The pricing of \<open>submitBid\<close>\<close>

text \<open>
  The request body, with \<open>startDate\<close> given as a time value in milliseconds.
\<close>

record bid_request =
  req_proposedCost :: number
  req_startDate :: number
  req_duration :: number
  req_proposal :: string
  req_teamSize :: number

text \<open>
  \<open>new Date(t)\<close> keeps the integral part of a time value of magnitude up to
  8.64e15; beyond that it is an invalid date (\<open>None\<close>), whose time value is \<open>NaN\<close>.
\<close>

definition Date_of :: "number \<Rightarrow> number option" where
  "Date_of t =
     (if \<bar>t\<bar> \<le> 8640000000000000
      then Some (if 0 \<le> t then of_int \<lfloor>t\<rfloor> else of_int \<lceil>t\<rceil>)
      else None)"

definition msInMonth :: "number \<Rightarrow> number" where
  "msInMonth durationMonths =
     js_mul (js_mul (js_mul (js_mul (js_mul durationMonths 30) 24) 60) 60) 1000"

definition calculateMilestoneDates ::
  "number \<Rightarrow> number \<Rightarrow> number option \<times> number option \<times> number option" where
  "calculateMilestoneDates startDate durationMonths =
     (case Date_of startDate of
        None \<Rightarrow> (None, None, None)
      | Some startTime \<Rightarrow>
          let ms = msInMonth durationMonths
          in (Date_of (js_add startTime (js_mul ms FOUNDATION_PERCENTAGE)),
              Date_of (js_add startTime (js_mul ms STRUCTURE_PERCENTAGE)),
              Date_of (js_add startTime ms)))"

definition cost_breakdown :: "bid_request \<Rightarrow> cost_item list" where
  "cost_breakdown bidData =
     [\<lparr>category = ''labor'', description = ''Labor costs'',
        amount = js_mul (req_proposedCost bidData) LABOR_PERCENTAGE,
        quantity = Some (req_teamSize bidData)\<rparr>,
      \<lparr>category = ''materials'', description = ''Materials and supplies'',
        amount = js_mul (req_proposedCost bidData) MATERIALS_PERCENTAGE,
        quantity = None\<rparr>,
      \<lparr>category = ''overhead'', description = ''Overhead and profit'',
        amount = js_mul (req_proposedCost bidData) OVERHEAD_PERCENTAGE,
        quantity = None\<rparr>]"

definition milestone_schedule :: "bid_request \<Rightarrow> milestone list" where
  "milestone_schedule bidData =
     (case calculateMilestoneDates (req_startDate bidData) (req_duration bidData) of
        (foundation, structure, completion) \<Rightarrow>
          [\<lparr>m_title = ''Foundation Complete'', expectedCompletionDate = foundation,
             paymentPercentage = FOUNDATION_PAYMENT\<rparr>,
           \<lparr>m_title = ''Structure Complete'', expectedCompletionDate = structure,
             paymentPercentage = STRUCTURE_PAYMENT\<rparr>,
           \<lparr>m_title = ''Project Complete'', expectedCompletionDate = completion,
             paymentPercentage = COMPLETION_PAYMENT\<rparr>])"

text \<open>
  \<open>new Bid(simplifiedBidData)\<close>: \<open>newId\<close> is the \<open>_id\<close> the driver generates,
  \<open>lastUpdated\<close> takes its schema default \<open>Date.now\<close>.
\<close>

definition simplifiedBidData ::
  "number \<Rightarrow> string \<Rightarrow> string \<Rightarrow> vendor_profile \<Rightarrow> bid_request \<Rightarrow> bid" where
  "simplifiedBidData now newId projectId vendor bidData =
     \<lparr>bid_id = newId,
      bid_project = projectId,
      bid_vendor = vendor_id vendor,
      proposedCost_total = req_proposedCost bidData,
      proposedCost_breakdown = cost_breakdown bidData,
      proposedStartDate = Date_of (req_startDate bidData),
      estimatedDuration_value = req_duration bidData,
      milestones = milestone_schedule bidData,
      proposal_summary = sanitizeText (req_proposal bidData),
      negotiations = [],
      status_current = ''PENDING'',
      status_history = [\<lparr>h_status = ''PENDING'', h_timestamp = now, h_reason = None\<rparr>],
      submittedAt = None,
      lastUpdated = now\<rparr>"

subsection \<open>\<open>TTLCache\<close>\<close>

text \<open>
  The \<open>Map\<close> of a cache is the list of its entries in insertion order: \<open>set\<close> on a
  present key keeps its place, on a new key appends.
\<close>

record 'v cache_entry =
  c_value :: 'v
  expiresAt :: number

type_synonym 'v ttl_cache = "(string \<times> 'v cache_entry) list"

fun Map_set :: "string \<Rightarrow> 'e \<Rightarrow> (string \<times> 'e) list \<Rightarrow> (string \<times> 'e) list" where
  "Map_set k e [] = [(k, e)]"
| "Map_set k e (p # ps) = (if fst p = k then (k, e) # ps else p # Map_set k e ps)"

definition Map_delete :: "string \<Rightarrow> (string \<times> 'e) list \<Rightarrow> (string \<times> 'e) list" where
  "Map_delete k m = filter (\<lambda>p. fst p \<noteq> k) m"

definition TTLCache_set :: "number \<Rightarrow> string \<Rightarrow> 'v \<Rightarrow> 'v ttl_cache \<Rightarrow> 'v ttl_cache" where
  "TTLCache_set now key v c =
     Map_set key \<lparr>c_value = v, expiresAt = js_add now CACHE_TTL\<rparr>
       (if CACHE_MAX_SIZE \<le> length c then tl c else c)"

definition TTLCache_get :: "number \<Rightarrow> string \<Rightarrow> 'v ttl_cache \<Rightarrow> 'v option \<times> 'v ttl_cache" where
  "TTLCache_get now key c =
     (case map_of c key of
        None \<Rightarrow> (None, c)
      | Some entry \<Rightarrow>
          if expiresAt entry < now then (None, Map_delete key c)
          else (Some (c_value entry), c))"

definition TTLCache_cleanup :: "number \<Rightarrow> 'v ttl_cache \<Rightarrow> 'v ttl_cache" where
  "TTLCache_cleanup now c = filter (\<lambda>p. \<not> expiresAt (snd p) < now) c"

text \<open>\<open>key.includes(sub)\<close>\<close>

fun str_includes :: "string \<Rightarrow> string \<Rightarrow> bool" where
  "str_includes [] sub = (sub = [])"
| "str_includes (c # s) sub = (prefix sub (c # s) \<or> str_includes s sub)"

subsection \<open>Competitive analysis\<close>

record bid_statistics =
  averageCost :: number
  medianCost :: number
  costRange_min :: number
  costRange_max :: number
  averageDuration :: number
  bidCount :: nat

text \<open>
  The analysis that \<open>getCompetitiveAnalysis\<close> returns and caches. Its third component,
  the \<open>competitiveness\<close> score, divides by the averages and can be \<open>NaN\<close>; it is not
  part of the model.
\<close>

record analysis =
  a_cost :: number
  a_duration :: number
  market :: bid_statistics

text \<open>
  \<open>bidSchema.statics.findCompetingBids\<close>: the query, then \<open>.sort('proposedCost.total')\<close>.
\<close>

definition findCompetingBids :: "database \<Rightarrow> string \<Rightarrow> string option \<Rightarrow> bid list" where
  "findCompetingBids db projectId excludeBidId =
     sort_key proposedCost_total
       (filter (\<lambda>b. bid_project b = projectId
                    \<and> List.member [''PENDING'', ''IN_REVIEW''] (status_current b)
                    \<and> (case excludeBidId of None \<Rightarrow> True | Some i \<Rightarrow> bid_id b \<noteq> i))
          (bids db))"

text \<open>
  \<open>costs.reduce((a, b) => a + b, 0)\<close>, and \<open>Math.min(...)\<close>, \<open>Math.max(...)\<close> of a
  list that is not empty.
\<close>

definition reduce_add :: "number list \<Rightarrow> number" where
  "reduce_add xs = foldl js_add 0 xs"

definition Math_min :: "number \<Rightarrow> number list \<Rightarrow> number" where
  "Math_min x xs = foldl min x xs"

definition Math_max :: "number \<Rightarrow> number list \<Rightarrow> number" where
  "Math_max x xs = foldl max x xs"

definition calculateBidStatistics :: "bid \<Rightarrow> bid list \<Rightarrow> bid_statistics" where
  "calculateBidStatistics b competingBids =
     (case competingBids of
        [] \<Rightarrow>
          \<lparr>averageCost = proposedCost_total b,
           medianCost = proposedCost_total b,
           costRange_min = proposedCost_total b,
           costRange_max = proposedCost_total b,
           averageDuration = estimatedDuration_value b,
           bidCount = 1\<rparr>
      | c # cs \<Rightarrow>
          let costs = map proposedCost_total competingBids;
              durations = map estimatedDuration_value competingBids;
              sortedCosts = sort costs
          in \<lparr>averageCost = js_div (reduce_add costs) (of_nat (length costs)),
              medianCost = sortedCosts ! (length sortedCosts div 2),
              costRange_min = Math_min (proposedCost_total c) (map proposedCost_total cs),
              costRange_max = Math_max (proposedCost_total c) (map proposedCost_total cs),
              averageDuration = js_div (reduce_add durations) (of_nat (length durations)),
              bidCount = length competingBids + 1\<rparr>)"

subsection \<open>The service's state and its operations\<close>

text \<open>
  \<open>projectBidsCache\<close> holds the pages that \<open>getProjectBids\<close> answers with; of that
  method only its cache keys, \<open>project_bids_<projectId>_<status>_<page>_<limit>\<close>, matter
  below.
\<close>

record bids_page =
  page_bids :: "bid list"
  page_total :: nat

record service_state =
  svc_db :: database
  bidCache :: "analysis ttl_cache"
  projectBidsCache :: "bids_page ttl_cache"

definition clearProjectBidCaches :: "string \<Rightarrow> service_state \<Rightarrow> service_state" where
  "clearProjectBidCaches projectId st =
     st\<lparr>projectBidsCache :=
          filter (\<lambda>p. \<not> str_includes (fst p) (''project_bids_'' @ projectId))
            (projectBidsCache st),
        bidCache :=
          filter (\<lambda>p. \<not> str_includes (fst p) ''competitive_analysis_'') (bidCache st)\<rparr>"

definition getCompetitiveAnalysis ::
  "number \<Rightarrow> service_state \<Rightarrow> string \<Rightarrow> (api_error + analysis) \<times> service_state" where
  "getCompetitiveAnalysis now st bidId =
     (let cacheKey = ''competitive_analysis_'' @ bidId
      in case TTLCache_get now cacheKey (bidCache st) of
           (Some cached, c) \<Rightarrow> (Inr cached, st\<lparr>bidCache := c\<rparr>)
         | (None, c) \<Rightarrow>
             (case Bid_findById (svc_db st) bidId of
                None \<Rightarrow> (Inl (ApiError 404 ''Bid not found''), st\<lparr>bidCache := c\<rparr>)
              | Some b \<Rightarrow>
                  let competingBids = findCompetingBids (svc_db st) (bid_project b) (Some (bid_id b));
                      a = \<lparr>a_cost = proposedCost_total b,
                           a_duration = estimatedDuration_value b,
                           market = calculateBidStatistics b competingBids\<rparr>
                  in (Inr a, st\<lparr>bidCache := TTLCache_set now cacheKey a c\<rparr>)))"

text \<open>
  \<open>submitBid\<close>. Its one write runs in the transaction it commits right after; a thrown
  error reaches the \<open>catch\<close>, which aborts and translates it.
\<close>

definition submitBid_catch :: "thrown \<Rightarrow> api_error" where
  "submitBid_catch e =
     (case e of
        ApiErr a \<Rightarrow> a
      | TypeError \<Rightarrow> ApiError 500 ''Error submitting bid''
      | DuplicateKey \<Rightarrow> ApiError 400 ''Vendor has already submitted a bid for this project''
      | MongoServerError \<Rightarrow>
          ApiError 400 ''Vendor has already submitted a bid for this project''
      | ValidationError \<Rightarrow> ApiError 400 ''Invalid bid data''
      | OtherError \<Rightarrow> ApiError 500 ''Error submitting bid'')"

definition submitBid ::
  "number \<Rightarrow> string \<Rightarrow> service_state \<Rightarrow> string \<Rightarrow> string \<Rightarrow> bid_request
     \<Rightarrow> (api_error + bid) \<times> service_state" where
  "submitBid now newId st projectId vendorId bidData =
     (case Project_findById (svc_db st) projectId of
        None \<Rightarrow> (Inl (ApiError 404 ''Project not found''), st)
      | Some project \<Rightarrow>
         (case VendorProfile_findByUser (svc_db st) vendorId of
            None \<Rightarrow> (Inl (ApiError 404 ''Vendor not found''), st)
          | Some vendor \<Rightarrow>
              if \<not> List.member [''OPEN'', ''IN_REVIEW''] (project_status_current project)
              then (Inl (ApiError 400 ''Project is not open for bidding''), st)
              else (case validateVendorEligibility vendor project of
                      Inl e \<Rightarrow> (Inl e, st)
                    | Inr ok \<Rightarrow>
                       (case bid_save True now (svc_db st)
                               (simplifiedBidData now newId projectId vendor bidData) of
                          Inl e \<Rightarrow> (Inl (submitBid_catch e), st)
                        | Inr (b, db') \<Rightarrow> (Inr b, st\<lparr>svc_db := db'\<rparr>)))))"

text \<open>
  \<open>updateBid\<close>. The patch is the request body as far as it names paths of the model,
  each with a value of the path's shape; \<open>_sanitizeUpdateData\<close> deletes the immutable
  ones and \<open>Object.assign\<close> sets the rest.
\<close>

record bid_patch =
  patch_id :: "string option"
  patch_project :: "string option"
  patch_vendor :: "string option"
  patch_status :: "(string \<times> history_entry list) option"
  patch_metadata :: "(number option \<times> number) option"
  patch_proposedCost :: "(number \<times> cost_item list) option"
  patch_timeline :: "(number \<times> number \<times> milestone list) option"

definition sanitizeUpdateData :: "bid_patch \<Rightarrow> bid_patch" where
  "sanitizeUpdateData updateData =
     updateData\<lparr>patch_project := None, patch_vendor := None, patch_status := None,
                patch_metadata := None, patch_id := None\<rparr>"

definition Object_assign :: "bid \<Rightarrow> bid_patch \<Rightarrow> bid" where
  "Object_assign b u =
     (let b1 = (case patch_id u of None \<Rightarrow> b | Some i \<Rightarrow> b\<lparr>bid_id := i\<rparr>);
          b2 = (case patch_project u of None \<Rightarrow> b1 | Some p \<Rightarrow> b1\<lparr>bid_project := p\<rparr>);
          b3 = (case patch_vendor u of None \<Rightarrow> b2 | Some v \<Rightarrow> b2\<lparr>bid_vendor := v\<rparr>);
          b4 = (case patch_status u of None \<Rightarrow> b3
                | Some (c, h) \<Rightarrow> b3\<lparr>status_current := c, status_history := h\<rparr>);
          b5 = (case patch_metadata u of None \<Rightarrow> b4
                | Some (s, l) \<Rightarrow> b4\<lparr>submittedAt := s, lastUpdated := l\<rparr>);
          b6 = (case patch_proposedCost u of None \<Rightarrow> b5
                | Some (t, bd) \<Rightarrow> b5\<lparr>proposedCost_total := t, proposedCost_breakdown := bd\<rparr>)
      in case patch_timeline u of None \<Rightarrow> b6
         | Some (start, dur, ms) \<Rightarrow>
             b6\<lparr>proposedStartDate := Date_of start, estimatedDuration_value := dur,
                milestones := ms\<rparr>)"

definition updateBid_catch :: "thrown \<Rightarrow> api_error" where
  "updateBid_catch e =
     (case e of
        ApiErr a \<Rightarrow> a
      | TypeError \<Rightarrow> ApiError 500 ''Error updating bid''
      | ValidationError \<Rightarrow> ApiError 400 ''Invalid update data''
      | DuplicateKey \<Rightarrow> ApiError 500 ''Error updating bid''
      | MongoServerError \<Rightarrow> ApiError 500 ''Error updating bid''
      | OtherError \<Rightarrow> ApiError 500 ''Error updating bid'')"

definition updateBid ::
  "number \<Rightarrow> service_state \<Rightarrow> string \<Rightarrow> string \<Rightarrow> bid_patch
     \<Rightarrow> (api_error + bid) \<times> service_state" where
  "updateBid now st bidId vendorId updateData =
     (case VendorProfile_findByUser (svc_db st) vendorId of
        None \<Rightarrow> (Inl (ApiError 404 ''Vendor profile not found''), st)
      | Some vendor \<Rightarrow>
         (case Bid_findById (svc_db st) bidId of
            None \<Rightarrow> (Inl (ApiError 404 ''Bid not found''), st)
          | Some b \<Rightarrow>
              if bid_vendor b \<noteq> vendor_id vendor
              then (Inl (ApiError 403 ''Not authorized to access this bid''), st)
              else if \<not> List.member [''DRAFT'', ''PENDING''] (status_current b)
              then (Inl (ApiError 400 ''Cannot update bid in current status''), st)
              else (case bid_save False now (svc_db st)
                           (Object_assign b (sanitizeUpdateData updateData)) of
                      Inl e \<Rightarrow> (Inl (updateBid_catch e), st)
                    | Inr (b', db') \<Rightarrow> (Inr b', st\<lparr>svc_db := db'\<rparr>))))"

text \<open>
  \<open>selectBid\<close>. Its persistence calls are, in order: the \<open>save()\<close> of each
  \<open>bid.updateStatus\<close> (called without the session, so written at once), then
  \<open>Bid.updateMany(.., { session })\<close> and \<open>project.save({ session })\<close> (written when the
  transaction commits), then \<open>commitTransaction\<close>. Any of them can be rejected by the
  server; \<open>fault\<close> names the call that is, if one is. The \<open>catch\<close> aborts the
  transaction, which drops the writes made with the session and nothing else.
\<close>

datatype write_step = SaveInReview | SaveAccepted | RejectOthers | SaveProject | Commit

definition selectBid_catch :: "thrown \<Rightarrow> api_error" where
  "selectBid_catch e = (case e of ApiErr a \<Rightarrow> a | _ \<Rightarrow> ApiError 500 ''Error selecting bid'')"

text \<open>The update document of \<open>Bid.updateMany\<close>, applied to the bids its filter matches.\<close>

definition reject_others :: "number \<Rightarrow> string \<Rightarrow> string \<Rightarrow> bid list \<Rightarrow> bid list" where
  "reject_others now projectId bidId bs =
     map (\<lambda>x. if bid_project x = projectId \<and> bid_id x \<noteq> bidId
                  \<and> List.member [''PENDING'', ''IN_REVIEW''] (status_current x)
               then x\<lparr>status_current := ''REJECTED'',
                      status_history := status_history x @
                        [\<lparr>h_status = ''REJECTED'', h_timestamp = now,
                          h_reason = Some ''Another bid was selected''\<rparr>]\<rparr>
               else x) bs"

definition selectBid_transaction ::
  "write_step option \<Rightarrow> number \<Rightarrow> service_state \<Rightarrow> bid \<Rightarrow> project \<Rightarrow> string \<Rightarrow> string
     \<Rightarrow> (api_error + bid \<times> project) \<times> service_state" where
  "selectBid_transaction fault now st b project bidId projectId =
     (case (if status_current b = ''PENDING''
            then (if fault = Some SaveInReview then Inl OtherError
                  else updateStatus now (svc_db st) b ''IN_REVIEW'' (Some ''Bid under final review''))
            else Inr (b, svc_db st)) of
        Inl e \<Rightarrow> (Inl (selectBid_catch e), st)
      | Inr (b1, db1) \<Rightarrow>
         (case (if fault = Some SaveAccepted then Inl OtherError
                else updateStatus now db1 b1 ''ACCEPTED'' (Some ''Selected by client'')) of
            Inl e \<Rightarrow> (Inl (selectBid_catch e), st\<lparr>svc_db := db1\<rparr>)
          | Inr (b2, db2) \<Rightarrow>
              if fault = Some RejectOthers
              then (Inl (selectBid_catch OtherError), st\<lparr>svc_db := db2\<rparr>)
              else
                let session_bids = reject_others now projectId bidId (bids db2)
                in (case (if fault = Some SaveProject then Inl OtherError
                          else project_save now db2
                                 (project\<lparr>project_status_current := ''IN_PROGRESS'',
                                    project_status_history := project_status_history project @
                                      [\<lparr>h_status = ''IN_PROGRESS'', h_timestamp = now,
                                        h_reason = Some ''Bid selected and accepted''\<rparr>]\<rparr>)) of
                      Inl e \<Rightarrow> (Inl (selectBid_catch e), st\<lparr>svc_db := db2\<rparr>)
                    | Inr (project', session_projects) \<Rightarrow>
                        if fault = Some Commit
                        then (Inl (selectBid_catch OtherError), st\<lparr>svc_db := db2\<rparr>)
                        else (Inr (b2, project'),
                              clearProjectBidCaches projectId
                                (st\<lparr>svc_db := db2\<lparr>bids := session_bids,
                                             projects := session_projects\<rparr>\<rparr>)))))"

definition selectBid ::
  "write_step option \<Rightarrow> number \<Rightarrow> service_state \<Rightarrow> string \<Rightarrow> string \<Rightarrow> string
     \<Rightarrow> (api_error + bid \<times> project) \<times> service_state" where
  "selectBid fault now st bidId projectId clientId =
     (case getClientProfile (svc_db st) clientId of
        Inl e \<Rightarrow> (Inl e, st)
      | Inr clientProfile \<Rightarrow>
         (case Bid_findById (svc_db st) bidId of
            None \<Rightarrow> (Inl (ApiError 404 ''Bid not found''), st)
          | Some b \<Rightarrow>
             (case Project_findOwned (svc_db st) projectId (client_id clientProfile) of
                None \<Rightarrow> (Inl (ApiError 404 ''Project not found or unauthorized''), st)
              | Some project \<Rightarrow>
                  if status_current b = ''ACCEPTED'' then (Inr (b, project), st)
                  else if status_current b \<noteq> ''PENDING'' \<and> status_current b \<noteq> ''IN_REVIEW''
                  then (Inl (ApiError 400 ''Bid cannot be selected in current status''), st)
                  else if project_status_current project \<noteq> ''OPEN''
                          \<and> project_status_current project \<noteq> ''IN_REVIEW''
                  then (Inl (ApiError 400 ''Project must be open or in review to select bids''),
                        st)
                  else selectBid_transaction fault now st b project bidId projectId)))"

text \<open>\<open>rejectBid\<close>: \<open>reason\<close> is \<open>None\<close> when the caller passes none.\<close>

definition rejectBid_catch :: "thrown \<Rightarrow> api_error" where
  "rejectBid_catch e = (case e of ApiErr a \<Rightarrow> a | _ \<Rightarrow> ApiError 500 ''Error rejecting bid'')"

definition rejectBid ::
  "number \<Rightarrow> service_state \<Rightarrow> string \<Rightarrow> string \<Rightarrow> string \<Rightarrow> string option
     \<Rightarrow> (api_error + bid \<times> string) \<times> service_state" where
  "rejectBid now st bidId projectId clientId reason =
     (let sanitizedReason =
            sanitizeText (case reason of None \<Rightarrow> ''Bid rejected by client'' | Some r \<Rightarrow> r)
      in case getClientProfile (svc_db st) clientId of
           Inl e \<Rightarrow> (Inl e, st)
         | Inr clientProfile \<Rightarrow>
            (case Bid_findById (svc_db st) bidId of
               None \<Rightarrow> (Inl (ApiError 404 ''Bid not found''), st)
             | Some b \<Rightarrow>
                (case Project_findOwned (svc_db st) projectId (client_id clientProfile) of
                   None \<Rightarrow> (Inl (ApiError 404 ''Project not found or unauthorized''), st)
                 | Some project \<Rightarrow>
                     if status_current b = ''REJECTED''
                     then (Inr (b, ''Bid is already rejected''), st)
                     else if status_current b = ''ACCEPTED''
                     then (Inl (ApiError 400 ''Cannot reject an accepted bid''), st)
                     else (case updateStatus now (svc_db st) b ''REJECTED'' (Some sanitizedReason) of
                             Inl e \<Rightarrow> (Inl (rejectBid_catch e), st)
                           | Inr (b', db') \<Rightarrow>
                               (Inr (b', ''Bid rejected successfully''), st\<lparr>svc_db := db'\<rparr>)))))"

text \<open>\<open>negotiateBid\<close>: a truthy \<open>message\<close> is sanitized.\<close>

definition negotiateBid_catch :: "thrown \<Rightarrow> api_error" where
  "negotiateBid_catch e =
     (case e of ApiErr a \<Rightarrow> a | _ \<Rightarrow> ApiError 500 ''Error processing negotiation'')"

definition negotiateBid ::
  "number \<Rightarrow> service_state \<Rightarrow> string \<Rightarrow> negotiation_data \<Rightarrow> string
     \<Rightarrow> (api_error + bid \<times> negotiation) \<times> service_state" where
  "negotiateBid now st bidId negotiationData initiatorType =
     (case Bid_findById (svc_db st) bidId of
        None \<Rightarrow> (Inl (ApiError 404 ''Bid not found''), st)
      | Some b \<Rightarrow>
          if \<not> List.member [''PENDING'', ''IN_REVIEW''] (status_current b)
          then (Inl (ApiError 400 ''Bid cannot be negotiated in current status''), st)
          else
            let nd = negotiationData\<lparr>nd_message := map_option sanitizeText
                                                      (nd_message negotiationData)\<rparr>
            in (case addNegotiation now (svc_db st) b nd initiatorType of
                  Inl e \<Rightarrow> (Inl (negotiateBid_catch e), st)
                | Inr (n, b', db') \<Rightarrow> (Inr (b', n), st\<lparr>svc_db := db'\<rparr>)))"

text \<open>\<open>deleteBid\<close>: \<open>Bid.findByIdAndDelete\<close>, then the caches of the bid's project.\<close>

definition deleteBid ::
  "service_state \<Rightarrow> string \<Rightarrow> string \<Rightarrow> (api_error + string) \<times> service_state" where
  "deleteBid st bidId vendorId =
     (case VendorProfile_findByUser (svc_db st) vendorId of
        None \<Rightarrow> (Inl (ApiError 404 ''Vendor profile not found''), st)
      | Some vendor \<Rightarrow>
         (case Bid_findById (svc_db st) bidId of
            None \<Rightarrow> (Inl (ApiError 404 ''Bid not found''), st)
          | Some b \<Rightarrow>
              if bid_vendor b \<noteq> vendor_id vendor
              then (Inl (ApiError 403 ''Not authorized to delete this bid''), st)
              else if status_current b \<noteq> ''PENDING''
              then (Inl (ApiError 400 ''Only pending bids can be deleted''), st)
              else (Inr bidId,
                    clearProjectBidCaches (bid_project b)
                      (st\<lparr>svc_db := (svc_db st)\<lparr>bids := filter (\<lambda>x. bid_id x \<noteq> bidId)
                                                   (bids (svc_db st))\<rparr>\<rparr>))))"

text \<open>
  \<open>ProjectService.deleteProject(projectId, clientId)\<close>, called with the client profile's
  id: \<open>Project.findOneAndDelete\<close>, then \<open>Bid.deleteMany({ project: projectId })\<close>. The
  cache it clears is the project service's own.
\<close>

definition deleteProject ::
  "service_state \<Rightarrow> string \<Rightarrow> string \<Rightarrow> (api_error + string) \<times> service_state" where
  "deleteProject st projectId clientId =
     (case Project_findOwned (svc_db st) projectId clientId of
        None \<Rightarrow> (Inl (ApiError 404 ''Project not found or access denied''), st)
      | Some p \<Rightarrow>
          (Inr ''Project deleted successfully'',
           st\<lparr>svc_db := (svc_db st)\<lparr>projects := remove1 p (projects (svc_db st)),
                              bids := filter (\<lambda>x. bid_project x \<noteq> projectId)
                                        (bids (svc_db st))\<rparr>\<rparr>))"

section \<open>The specification's notions, and concrete documents\<close>

text \<open>The transition table as the specification lists it.\<close>

definition spec_transition_table :: "(string \<times> string) list" where
  "spec_transition_table =
     [(''DRAFT'', ''PENDING''), (''DRAFT'', ''WITHDRAWN''),
      (''PENDING'', ''IN_REVIEW''), (''PENDING'', ''WITHDRAWN''), (''PENDING'', ''REJECTED''),
      (''IN_REVIEW'', ''ACCEPTED''), (''IN_REVIEW'', ''REJECTED''), (''IN_REVIEW'', ''PENDING''),
      (''ACCEPTED'', ''IN_REVIEW''),
      (''REJECTED'', ''IN_REVIEW''),
      (''WITHDRAWN'', ''PENDING'')]"

text \<open>
  A marketplace to run the operations on: a client with two open projects, three
  vendors, and on the first project one pending bid of each of the first two vendors, as \<open>submitBid\<close> stores them
  (three cost items, the 30/40/30 schedule, the status pushed twice). The bids propose
  to start at time 9000.
\<close>

definition demo_bid :: "string \<Rightarrow> string \<Rightarrow> string \<Rightarrow> number \<Rightarrow> bid" where
  "demo_bid i p v cost =
     \<lparr>bid_id = i, bid_project = p, bid_vendor = v,
      proposedCost_total = cost,
      proposedCost_breakdown =
        [\<lparr>category = ''labor'', description = ''Labor costs'',
           amount = cost * 6 / 10, quantity = Some 4\<rparr>,
         \<lparr>category = ''materials'', description = ''Materials and supplies'',
           amount = cost * 3 / 10, quantity = None\<rparr>,
         \<lparr>category = ''overhead'', description = ''Overhead and profit'',
           amount = cost / 10, quantity = None\<rparr>],
      proposedStartDate = Some 9000,
      estimatedDuration_value = 6,
      milestones =
        [\<lparr>m_title = ''Foundation Complete'', expectedCompletionDate = Some 4665609000,
           paymentPercentage = 30\<rparr>,
         \<lparr>m_title = ''Structure Complete'', expectedCompletionDate = Some 10886409000,
           paymentPercentage = 40\<rparr>,
         \<lparr>m_title = ''Project Complete'', expectedCompletionDate = Some 15552009000,
           paymentPercentage = 30\<rparr>],
      proposal_summary = replicate 100 (CHR ''x''),
      negotiations = [],
      status_current = ''PENDING'',
      status_history =
        [\<lparr>h_status = ''PENDING'', h_timestamp = 1000, h_reason = None\<rparr>,
         \<lparr>h_status = ''PENDING'', h_timestamp = 1000, h_reason = None\<rparr>],
      submittedAt = Some 1000,
      lastUpdated = 1000\<rparr>"

definition demo_project :: "string \<Rightarrow> project" where
  "demo_project i =
     \<lparr>project_id = i, project_client = ''c1'', projectType = ''residential'',
      project_status_current = ''OPEN'',
      project_status_history =
        [\<lparr>h_status = ''OPEN'', h_timestamp = 500,
           h_reason = Some ''Project published on creation''\<rparr>,
         \<lparr>h_status = ''OPEN'', h_timestamp = 500, h_reason = None\<rparr>],
      minExperience = Some 0, minRating = Some 0,
      updatedAt = 500, lastActivityAt = 500\<rparr>"

definition demo_vendor :: "string \<Rightarrow> string \<Rightarrow> vendor_profile" where
  "demo_vendor i u =
     \<lparr>vendor_id = i, vendor_user = u, vendor_status = ''active'',
      vendor_services = Some [''residential'', ''commercial''],
      yearsInBusiness = 7, ratings_average = 4, isVerified = False\<rparr>"

definition demo_db :: database where
  "demo_db =
     \<lparr>bids = [demo_bid ''b1'' ''p1'' ''v1'' 100000, demo_bid ''b2'' ''p1'' ''v2'' 120000],
      projects = [demo_project ''p1'', demo_project ''p2''],
      vendorProfiles =
        [demo_vendor ''v1'' ''uv1'', demo_vendor ''v2'' ''uv2'', demo_vendor ''v3'' ''uv3''],
      clientProfiles = [\<lparr>client_id = ''c1'', client_user = ''uc1''\<rparr>]\<rparr>"

definition demo_state :: service_state where
  "demo_state = \<lparr>svc_db = demo_db, bidCache = [], projectBidsCache = []\<rparr>"

text \<open>The same marketplace after the third vendor has bid 90000 on the first project.\<close>

definition demo_db3 :: database where
  "demo_db3 = demo_db\<lparr>bids := bids demo_db @ [demo_bid ''b3'' ''p1'' ''v3'' 90000]\<rparr>"

text \<open>
  The specification's competitors of a subject bid: same project, status \<open>PENDING\<close> or
  \<open>IN_REVIEW\<close>, not the subject itself.
\<close>

definition is_competitor :: "bid \<Rightarrow> bid \<Rightarrow> bool" where
  "is_competitor subject x =
     (bid_project x = bid_project subject
      \<and> (status_current x = ''PENDING'' \<or> status_current x = ''IN_REVIEW'')
      \<and> bid_id x \<noteq> bid_id subject)"

text \<open>
  The specification's eligibility check: four rules in order, the first that fails
  gives the reason. A vendor declares "any" by listing the service \<open>NA\<close>; an absent
  threshold is the default 0.
\<close>

definition Eligible_rules :: "vendor_profile \<Rightarrow> project \<Rightarrow> bool list" where
  "Eligible_rules v p =
     [vendor_status v = ''active'',
      (case vendor_services v of
         None \<Rightarrow> True
       | Some s \<Rightarrow> (s \<noteq> [] \<and> \<not> List.member s ''NA'' \<longrightarrow> List.member s (projectType p))),
      (case minExperience p of None \<Rightarrow> 0 | Some m \<Rightarrow> m) \<le> yearsInBusiness v,
      (case minRating p of None \<Rightarrow> 0 | Some m \<Rightarrow> m) \<le> ratings_average v]"

fun first_failure :: "bool list \<Rightarrow> nat option" where
  "first_failure [] = None"
| "first_failure (r # rs) = (if r then map_option Suc (first_failure rs) else Some 0)"

definition Eligible :: "vendor_profile \<Rightarrow> project \<Rightarrow> nat option" where
  "Eligible v p = first_failure (Eligible_rules v p)"

definition eligibility_reasons :: "string list" where
  "eligibility_reasons =
     [''Vendor account is not active'',
      ''Project type does not match vendor services'',
      ''Vendor does not meet minimum experience requirement'',
      ''Vendor does not meet minimum rating requirement'']"

definition demo_request :: "number \<Rightarrow> bid_request" where
  "demo_request cost =
     \<lparr>req_proposedCost = cost, req_startDate = 9000, req_duration = 6,
      req_proposal = replicate 100 (CHR ''x''), req_teamSize = 4\<rparr>"

text \<open>
  The sum of the payment percentages of a bid's milestone schedule, and the
  specification's invariant on the stored bids.
\<close>

definition milestones_sum :: "bid \<Rightarrow> number" where
  "milestones_sum b = sum_list (map paymentPercentage (milestones b))"

definition persisted_milestones_sum_100 :: "service_state \<Rightarrow> bool" where
  "persisted_milestones_sum_100 st = list_all (\<lambda>b. milestones_sum b = 100) (bids (svc_db st))"

text \<open>
  An update body that replaces the timeline: same start and duration, one milestone
  that pays 50 percent.
\<close>

definition demo_patch :: bid_patch where
  "demo_patch =
     \<lparr>patch_id = None, patch_project = None, patch_vendor = None, patch_status = None,
      patch_metadata = None, patch_proposedCost = None,
      patch_timeline = Some (9000, 6,
        [\<lparr>m_title = ''Handover'', expectedCompletionDate = Some 15552009000,
           paymentPercentage = 50\<rparr>])\<rparr>"

text \<open>
  The marketplace with the first page of the first project's bid list cached at time
  2000, then after the analysis of the first bid has been computed and cached, then after
  the second bid has been rejected at time 2100.
\<close>

definition demo_cached_state :: service_state where
  "demo_cached_state =
     demo_state\<lparr>projectBidsCache :=
       [(''project_bids_p1_all_1_20'',
         \<lparr>c_value = \<lparr>page_bids = bids demo_db, page_total = 2\<rparr>, expiresAt = 302000\<rparr>)]\<rparr>"

definition demo_analysed_state :: service_state where
  "demo_analysed_state = snd (getCompetitiveAnalysis 2000 demo_cached_state ''b1'')"

definition demo_rejected_state :: service_state where
  "demo_rejected_state = snd (rejectBid 2100 demo_analysed_state ''b2'' ''p1'' ''uc1'' None)"

section \<open>Properties of the bid state machine\<close>

lemmas demo_defs = demo_state_def demo_db_def demo_bid_def demo_project_def demo_vendor_def

lemmas select_defs = selectBid_def selectBid_transaction_def getClientProfile_def
  Bid_findById_def Project_findOwned_def Project_findById_def
  updateStatus_def updateStatus_doc_def validTransitions_def
  bid_save_def validateBid_def validCostItem_def validMilestone_def bid_states_def
  bid_pre_save_def bid_isModified_status_def bid_update_def replace_bid_def
  reject_others_def project_save_def validateProject_def project_states_def
  project_pre_save_def project_isModified_status_def replace_project_def
  clearProjectBidCaches_def selectBid_catch_def Let_def

lemma validTransitions_states:
  "validTransitions ''DRAFT'' = Own [''PENDING'', ''WITHDRAWN'']"
  "validTransitions ''PENDING'' = Own [''IN_REVIEW'', ''WITHDRAWN'', ''REJECTED'']"
  "validTransitions ''IN_REVIEW'' = Own [''ACCEPTED'', ''REJECTED'', ''PENDING'']"
  "validTransitions ''ACCEPTED'' = Own [''IN_REVIEW'']"
  "validTransitions ''REJECTED'' = Own [''IN_REVIEW'']"
  "validTransitions ''WITHDRAWN'' = Own [''PENDING'']"
  by (simp_all add: validTransitions_def)

lemma updateStatus_doc_allowed:
  assumes "List.member spec_transition_table (status_current b, n)"
  shows "updateStatus_doc b n r now =
           Inr (b\<lparr>status_current := n,
                  status_history := status_history b @
                    [\<lparr>h_status = n, h_timestamp = now, h_reason = r\<rparr>]\<rparr>)"
proof -
  have "(status_current b = ''DRAFT'' \<and> n = ''PENDING'')
      \<or> (status_current b = ''DRAFT'' \<and> n = ''WITHDRAWN'')
      \<or> (status_current b = ''PENDING'' \<and> n = ''IN_REVIEW'')
      \<or> (status_current b = ''PENDING'' \<and> n = ''WITHDRAWN'')
      \<or> (status_current b = ''PENDING'' \<and> n = ''REJECTED'')
      \<or> (status_current b = ''IN_REVIEW'' \<and> n = ''ACCEPTED'')
      \<or> (status_current b = ''IN_REVIEW'' \<and> n = ''REJECTED'')
      \<or> (status_current b = ''IN_REVIEW'' \<and> n = ''PENDING'')
      \<or> (status_current b = ''ACCEPTED'' \<and> n = ''IN_REVIEW'')
      \<or> (status_current b = ''REJECTED'' \<and> n = ''IN_REVIEW'')
      \<or> (status_current b = ''WITHDRAWN'' \<and> n = ''PENDING'')"
    using assms
    by (simp only: spec_transition_table_def List.member_iff
        list.set insert_iff empty_iff prod.inject simp_thms)
  then show ?thesis
    by (elim disjE conjE) (simp_all add: updateStatus_doc_def validTransitions_states)
qed

lemma updateStatus_doc_refused:
  assumes "List.member bid_states (status_current b)"
    and "\<not> List.member spec_transition_table (status_current b, n)"
  shows "updateStatus_doc b n r now =
           Inl (ApiErr (ApiError 400
             (''Invalid status transition from '' @ status_current b @ '' to '' @ n)))"
proof -
  have "status_current b = ''DRAFT'' \<or> status_current b = ''PENDING''
    \<or> status_current b = ''IN_REVIEW'' \<or> status_current b = ''ACCEPTED''
    \<or> status_current b = ''REJECTED'' \<or> status_current b = ''WITHDRAWN''"
    using assms(1)
    by (simp only: bid_states_def List.member_iff
        list.set insert_iff empty_iff simp_thms)
  then show ?thesis
    using assms(2)
    by (elim disjE)
       (simp_all add: updateStatus_doc_def validTransitions_states spec_transition_table_def)
qed

lemma table_target_is_state:
  "List.member spec_transition_table (c, n) \<Longrightarrow> List.member bid_states n"
  by (auto simp: spec_transition_table_def bid_states_def)

lemma find_replace_bid:
  "find (\<lambda>x. bid_id x = bid_id b) bs \<noteq> None \<Longrightarrow>
   find (\<lambda>x. bid_id x = bid_id b) (replace_bid b bs) = Some b"
  by (induction bs) (auto simp: replace_bid_def)

lemma bid_update_stored:
  "Bid_findById db (bid_id b) \<noteq> None \<Longrightarrow>
   bid_update db b = Inr (db\<lparr>bids := replace_bid b (bids db)\<rparr>)"
  by (auto simp: bid_update_def)

lemma bid_pre_save_id [simp]: "bid_id (bid_pre_save m now b) = bid_id b"
  by (simp add: bid_pre_save_def Let_def)

lemma bid_pre_save_status [simp]: "status_current (bid_pre_save m now b) = status_current b"
  by (simp add: bid_pre_save_def Let_def)

lemma bid_save_loaded:
  assumes "validateBid now b" and "Bid_findById db (bid_id b) \<noteq> None"
  shows "bid_save False now db b =
           Inr (bid_pre_save (bid_isModified_status db b) now b,
                db\<lparr>bids := replace_bid (bid_pre_save (bid_isModified_status db b) now b)
                              (bids db)\<rparr>)"
  using assms by (simp add: bid_save_def Let_def bid_update_stored)

lemma demo_bid_valid:
  "0 \<le> cost \<Longrightarrow> now \<le> 9000 \<Longrightarrow> validateBid now (demo_bid i p v cost)"
  by (simp add: validateBid_def demo_bid_def validCostItem_def validMilestone_def bid_states_def)

text \<open>
  The check of \<open>updateStatus\<close> follows the table: from one of the six states, a pair
  outside the table is refused with the error that names both states, and a pair of the
  table is assigned and pushed. What happens next is up to the save.
\<close>

lemma updateStatus_check_follows_table:
  assumes "List.member bid_states (status_current b)"
  shows "(\<exists>b'. updateStatus_doc b newStatus reason now = Inr b')
           \<longleftrightarrow> List.member spec_transition_table (status_current b, newStatus)"
proof (cases "List.member spec_transition_table (status_current b, newStatus)")
  case True
  then show ?thesis using updateStatus_doc_allowed[OF True, of reason now] by simp
next
  case False
  then show ?thesis using updateStatus_doc_refused[OF assms False, of reason now] by simp
qed

text \<open>
  The save validates the whole document, and the validator of \<open>proposedStartDate\<close>
  compares it with the clock: once the proposed start is past, no status update of the
  bid succeeds, whatever the target.
\<close>

lemma no_transition_after_start:
  assumes "proposedStartDate b = Some start" and "start < now"
  shows "updateStatus now db b newStatus reason \<noteq> Inr r"
proof (cases "updateStatus_doc b newStatus reason now")
  case (Inl e)
  then show ?thesis by (simp add: updateStatus_def)
next
  case (Inr b1)
  then have "proposedStartDate b1 = Some start"
    using assms(1)
    by (auto simp: updateStatus_doc_def split: property_lookup.splits if_splits)
  then have "\<not> validateBid now b1" using assms(2) by (simp add: validateBid_def)
  then show ?thesis using Inr by (simp add: updateStatus_def bid_save_def)
qed

text \<open>
  Claim C2 says that a status update succeeds exactly when its pair is in the
  transition table. The pair PENDING, IN_REVIEW is in the table and the first bid of the
  marketplace is stored and pending, yet at time 10000, after its proposed start at 9000,
  the update fails in the save with a validation error for a path the update never
  touched; \<open>rejectBid\<close> and \<open>selectBid\<close> then answer with status 500 and leave the
  bid as it was. The bulk rejection of \<open>selectBid\<close>, which does not save documents, still
  moves the pending bid to \<open>REJECTED\<close> at that time.
\<close>

theorem updateStatus_valid_pair_can_fail:
  "List.member spec_transition_table (''PENDING'', ''IN_REVIEW'')
   \<and> List.member spec_transition_table (''PENDING'', ''REJECTED'')
   \<and> Bid_findById demo_db ''b1'' = Some (demo_bid ''b1'' ''p1'' ''v1'' 100000)
   \<and> status_current (demo_bid ''b1'' ''p1'' ''v1'' 100000) = ''PENDING''
   \<and> updateStatus 10000 demo_db (demo_bid ''b1'' ''p1'' ''v1'' 100000) ''IN_REVIEW''
        (Some ''Bid under final review'') = Inl ValidationError
   \<and> rejectBid 10000 demo_state ''b1'' ''p1'' ''uc1'' None
       = (Inl (ApiError 500 ''Error rejecting bid''), demo_state)
   \<and> selectBid None 10000 demo_state ''b1'' ''p1'' ''uc1''
       = (Inl (ApiError 500 ''Error selecting bid''), demo_state)
   \<and> map (\<lambda>b. (bid_id b, status_current b)) (reject_others 10000 ''p1'' ''b2'' (bids demo_db))
       = [(''b1'', ''REJECTED''), (''b2'', ''PENDING'')]"
proof -
  have table: "List.member spec_transition_table (''PENDING'', ''IN_REVIEW'')"
    "List.member spec_transition_table (''PENDING'', ''REJECTED'')"
    by (simp_all add: spec_transition_table_def)
  have stored: "Bid_findById demo_db ''b1'' = Some (demo_bid ''b1'' ''p1'' ''v1'' 100000)"
    "status_current (demo_bid ''b1'' ''p1'' ''v1'' 100000) = ''PENDING''"
    by (simp_all add: Bid_findById_def demo_db_def demo_bid_def)
  have update: "updateStatus 10000 demo_db (demo_bid ''b1'' ''p1'' ''v1'' 100000) ''IN_REVIEW''
        (Some ''Bid under final review'') = Inl ValidationError"
    by (simp add: select_defs demo_defs)
  have reject: "rejectBid 10000 demo_state ''b1'' ''p1'' ''uc1'' None
       = (Inl (ApiError 500 ''Error rejecting bid''), demo_state)"
    by (simp add: rejectBid_def rejectBid_catch_def select_defs demo_defs)
  have select: "selectBid None 10000 demo_state ''b1'' ''p1'' ''uc1''
       = (Inl (ApiError 500 ''Error selecting bid''), demo_state)"
    by (simp add: select_defs demo_defs)
  have bulk: "map (\<lambda>b. (bid_id b, status_current b))
                (reject_others 10000 ''p1'' ''b2'' (bids demo_db))
       = [(''b1'', ''REJECTED''), (''b2'', ''PENDING'')]"
    by (simp add: reject_others_def demo_defs)
  show ?thesis using table stored update reject select bulk by (intro conjI)
qed

text \<open>
  Claim C5 says that a successful transition appends exactly one history entry. The
  method pushes one entry and the save hook, which sees the status modified, pushes a
  second one: the transition of the first pending bid to \<open>IN_REVIEW\<close> appends the two
  entries below. \<open>projectSchema.methods.updateStatus\<close> has the same double push.
\<close>

theorem updateStatus_appends_two_history_entries:
  "(case updateStatus 2000 demo_db (demo_bid ''b1'' ''p1'' ''v1'' 100000) ''IN_REVIEW''
           (Some ''Bid under final review'') of
       Inl e \<Rightarrow> []
     | Inr (b', db') \<Rightarrow> drop (length (status_history (demo_bid ''b1'' ''p1'' ''v1'' 100000)))
                          (status_history b'))
    = [\<lparr>h_status = ''IN_REVIEW'', h_timestamp = 2000,
         h_reason = Some ''Bid under final review''\<rparr>,
       \<lparr>h_status = ''IN_REVIEW'', h_timestamp = 2000, h_reason = None\<rparr>]
   \<and> (case project_updateStatus 2000 demo_db (demo_project ''p1'') ''ON_HOLD''
              (Some ''Paused by client'') of
         Inl e \<Rightarrow> []
       | Inr (p', ps) \<Rightarrow> drop (length (project_status_history (demo_project ''p1'')))
                           (project_status_history p'))
      = [\<lparr>h_status = ''ON_HOLD'', h_timestamp = 2000, h_reason = Some ''Paused by client''\<rparr>,
         \<lparr>h_status = ''ON_HOLD'', h_timestamp = 2000, h_reason = None\<rparr>]"
proof -
  have bid_part:
    "(case updateStatus 2000 demo_db (demo_bid ''b1'' ''p1'' ''v1'' 100000) ''IN_REVIEW''
           (Some ''Bid under final review'') of
       Inl e \<Rightarrow> []
     | Inr (b', db') \<Rightarrow> drop (length (status_history (demo_bid ''b1'' ''p1'' ''v1'' 100000)))
                          (status_history b'))
    = [\<lparr>h_status = ''IN_REVIEW'', h_timestamp = 2000,
         h_reason = Some ''Bid under final review''\<rparr>,
       \<lparr>h_status = ''IN_REVIEW'', h_timestamp = 2000, h_reason = None\<rparr>]"
    by (simp add: Bid_findById_def demo_db_def demo_bid_def
        updateStatus_def updateStatus_doc_def validTransitions_def
        bid_save_def validateBid_def validCostItem_def validMilestone_def bid_states_def
        bid_pre_save_def bid_isModified_status_def bid_update_def Let_def)
  have project_part:
    "(case project_updateStatus 2000 demo_db (demo_project ''p1'') ''ON_HOLD''
              (Some ''Paused by client'') of
         Inl e \<Rightarrow> []
       | Inr (p', ps) \<Rightarrow> drop (length (project_status_history (demo_project ''p1'')))
                           (project_status_history p'))
      = [\<lparr>h_status = ''ON_HOLD'', h_timestamp = 2000, h_reason = Some ''Paused by client''\<rparr>,
         \<lparr>h_status = ''ON_HOLD'', h_timestamp = 2000, h_reason = None\<rparr>]"
    by (simp add: project_updateStatus_def project_save_def validateProject_def
        project_states_def project_pre_save_def project_isModified_status_def
        Project_findById_def demo_db_def demo_project_def Let_def)
  show ?thesis using bid_part project_part by simp
qed

section \<open>Properties of the Number arithmetic\<close>

lemma round_half_even_error: "\<bar>of_int (round_half_even y) - y\<bar> \<le> 1 / 2"
proof -
  have "of_int \<lfloor>y\<rfloor> \<le> y" "y < of_int \<lfloor>y\<rfloor> + 1" by linarith+
  then show ?thesis
    unfolding round_half_even_def Let_def by (auto simp: abs_le_iff)
qed

lemma ilog2_lower:
  assumes "x \<noteq> 0" shows "2 powi (ilog2 x) \<le> \<bar>x\<bar>"
proof -
  obtain p q where pq: "quotient_of \<bar>x\<bar> = (p, q)" by (cases "quotient_of \<bar>x\<bar>")
  have q: "0 < q" using pq quotient_of_denom_pos by blast
  have x: "\<bar>x\<bar> = of_int p / of_int q" using pq quotient_of_div by blast
  have "0 < \<bar>x\<bar>" using assms by simp
  then have p: "0 < p" using x q by (simp add: zero_less_divide_iff)
  define bp where "bp = floorlog 2 (nat p)"
  define bq where "bq = floorlog 2 (nat q)"
  have bp: "2 ^ (bp - 1) \<le> nat p" "nat p < 2 ^ bp"
    using floorlog_bounds[of "nat p" 2] p by (auto simp: bp_def)
  have bq: "2 ^ (bq - 1) \<le> nat q" "nat q < 2 ^ bq"
    using floorlog_bounds[of "nat q" 2] q by (auto simp: bq_def)
  have bp0: "0 < bp" using p floorlog_eq_zero_iff[of 2 "nat p"] by (auto simp: bp_def)
  have P: "(2::rat) ^ (bp - 1) \<le> of_int p"
  proof -
    have "(of_nat (2 ^ (bp - 1)) :: rat) \<le> of_nat (nat p)" using bp(1) of_nat_le_iff by blast
    then show ?thesis using p by simp
  qed
  have Q: "of_int q < (2::rat) ^ bq"
  proof -
    have "(of_nat (nat q) :: rat) < of_nat (2 ^ bq)" using bq(2) of_nat_less_iff by blast
    then show ?thesis using q by simp
  qed
  have low: "(2::rat) powi (int bp - int bq - 1) \<le> \<bar>x\<bar>"
  proof -
    have e: "int bp - int bq - 1 = int (bp - 1) - int bq" using bp0 by linarith
    have "(2::rat) powi (int bp - int bq - 1) = 2 powi (int (bp - 1)) / 2 powi (int bq)"
      unfolding e by (rule power_int_diff) simp
    also have "\<dots> = 2 ^ (bp - 1) / 2 ^ bq" by simp
    also have "\<dots> \<le> of_int p / of_int q"
      using P Q q p by (intro frac_le) auto
    finally show ?thesis using x by simp
  qed
  show ?thesis
    unfolding ilog2_def pq Let_def prod.case bp_def[symmetric] bq_def[symmetric]
    using low by auto
qed

lemma fl_error:
  assumes "x \<noteq> 0"
  shows "\<bar>fl x - x\<bar> \<le> 2 powi (max (ilog2 x - 52) (- 1074)) / 2"
proof -
  define u :: rat where "u = 2 powi (max (ilog2 x - 52) (- 1074))"
  have u: "0 < u" by (simp add: u_def)
  have "fl x - x = (of_int (round_half_even (x / u)) - x / u) * u"
    using assms u by (simp add: fl_def u_def[symmetric] Let_def algebra_simps)
  then have "\<bar>fl x - x\<bar> = \<bar>of_int (round_half_even (x / u)) - x / u\<bar> * u"
    using u by (simp add: abs_mult)
  also have "\<dots> \<le> (1 / 2) * u"
    using round_half_even_error[of "x / u"] u by (intro mult_right_mono) auto
  finally show ?thesis by (simp add: u_def)
qed

lemma fl_relative_error:
  assumes "2 powi (- 1022) \<le> \<bar>x\<bar>"
  shows "\<bar>fl x - x\<bar> \<le> \<bar>x\<bar> / 2 ^ 53"
proof -
  have x0: "x \<noteq> 0" using assms
    by (metis abs_zero not_le zero_less_numeral zero_less_power_int)
  show ?thesis
  proof (cases "- 1022 \<le> ilog2 x")
    case True
    then have "max (ilog2 x - 52) (- 1074) = ilog2 x - 52" by simp
    then have "\<bar>fl x - x\<bar> \<le> 2 powi (ilog2 x - 52) / 2" using fl_error[OF x0] by simp
    also have "\<dots> = 2 powi (ilog2 x) / 2 ^ 53"
      by (simp add: power_int_diff)
    also have "\<dots> \<le> \<bar>x\<bar> / 2 ^ 53"
      using ilog2_lower[OF x0] by (simp add: divide_right_mono)
    finally show ?thesis .
  next
    case False
    then have "max (ilog2 x - 52) (- 1074) = - 1074" by simp
    then have "\<bar>fl x - x\<bar> \<le> 2 powi (- 1074) / 2" using fl_error[OF x0] by simp
    also have "\<dots> = 2 powi (- 1022) / 2 ^ 53"
      by (simp add: power_int_minus)
    also have "\<dots> \<le> \<bar>x\<bar> / 2 ^ 53"
      using assms by (simp add: divide_right_mono)
    finally show ?thesis .
  qed
qed

lemma fl_abs_error: "\<bar>fl x - x\<bar> \<le> \<bar>x\<bar> / 2 ^ 53 + 2 powi (- 1075)"
proof (cases "x = 0")
  case True
  then show ?thesis by (simp add: fl_def)
next
  case False
  have "\<bar>fl x - x\<bar> \<le> 2 powi (max (ilog2 x - 52) (- 1074)) / 2" by (rule fl_error[OF False])
  also have "\<dots> \<le> (2 powi (ilog2 x - 52) + 2 powi (- 1074)) / 2"
    by (cases "ilog2 x - 52 \<le> - 1074") (simp_all add: max_def)
  also have "\<dots> = 2 powi (ilog2 x) / 2 ^ 53 + 2 powi (- 1075)"
    by (simp add: power_int_diff power_int_minus add_divide_distrib)
  also have "\<dots> \<le> \<bar>x\<bar> / 2 ^ 53 + 2 powi (- 1075)"
    using ilog2_lower[OF False] by (simp add: divide_right_mono)
  finally show ?thesis .
qed

lemma round_half_even_nonneg: "0 \<le> y \<Longrightarrow> 0 \<le> round_half_even y"
  unfolding round_half_even_def Let_def by (auto simp: zero_le_floor)

lemma fl_nonneg: "0 \<le> x \<Longrightarrow> 0 \<le> fl x"
  unfolding fl_def Let_def
  by (auto intro!: mult_nonneg_nonneg round_half_even_nonneg divide_nonneg_pos)

lemma round_half_even_of_int [simp]: "round_half_even (of_int m) = m"
  by (simp add: round_half_even_def)

lemma fl_of_int:
  assumes "\<bar>k\<bar> < 2 ^ 53"
  shows "fl (of_int k) = of_int k"
proof (cases "k = 0")
  case True
  then show ?thesis by (simp add: fl_def)
next
  case False
  let ?x = "of_int k :: rat"
  have x0: "?x \<noteq> 0" using False by simp
  have "2 powi (ilog2 ?x) \<le> \<bar>?x\<bar>" by (rule ilog2_lower[OF x0])
  also have "\<bar>?x\<bar> < 2 ^ 53"
  proof -
    have "(of_int \<bar>k\<bar> :: rat) < of_int (2 ^ 53)" using assms of_int_less_iff by blast
    then show ?thesis by simp
  qed
  finally have "(2::rat) powi (ilog2 ?x) < 2 powi 53" by simp
  then have le: "ilog2 ?x < 53" by (rule power_int_le_imp_less_exp[rotated]) simp_all
  define e where "e = max (ilog2 ?x - 52) (- 1074)"
  have e: "e \<le> 0" using le by (simp add: e_def)
  have u: "(2::rat) powi e = 1 / 2 ^ nat (- e)"
    using e by (simp add: power_int_def inverse_eq_divide power_one_over)
  have "?x / 2 powi e = of_int (k * 2 ^ nat (- e))" by (simp add: u)
  then have r: "round_half_even (?x / 2 powi e) = k * 2 ^ nat (- e)"
    by (simp only: round_half_even_of_int)
  show ?thesis
    using x0 by (simp add: fl_def Let_def e_def[symmetric] r) (simp add: u)
qed

lemma fl_numeral: "(numeral n :: int) < 2 ^ 53 \<Longrightarrow> fl (numeral n) = numeral n"
  using fl_of_int[of "numeral n"] by simp

lemma reduce_add_exact_aux:
  assumes "list_all (\<lambda>c. c \<in> \<int> \<and> 0 \<le> c) xs" and "a \<in> \<int>" and "0 \<le> a"
    and "a + sum_list xs < 2 ^ 53"
  shows "foldl js_add a xs = a + sum_list xs"
  using assms
proof (induction xs arbitrary: a)
  case Nil
  then show ?case by simp
next
  case (Cons x xs)
  have xs_nonneg: "0 \<le> sum_list xs"
    using Cons.prems(1) by (intro sum_list_nonneg) (auto simp: list_all_iff)
  have x: "x \<in> \<int>" "0 \<le> x" using Cons.prems(1) by simp_all
  have ax: "a + x \<in> \<int>" using x(1) Cons.prems(2) by (rule Ints_add[rotated])
  then obtain k where k: "a + x = of_int k" by (rule Ints_cases)
  have lt: "a + x < 2 ^ 53" using Cons.prems(4) xs_nonneg by simp
  have ge: "0 \<le> a + x" using x Cons.prems(3) by simp
  have "(of_int k :: rat) < of_int (2 ^ 53)" using lt unfolding k by simp
  then have k1: "k < 2 ^ 53" by (simp only: of_int_less_iff)
  have "(of_int 0 :: rat) \<le> of_int k" using ge unfolding k by simp
  then have k2: "0 \<le> k" by (simp only: of_int_le_iff)
  have "\<bar>k\<bar> < 2 ^ 53" using k1 k2 by simp
  then have "fl (of_int k) = of_int k" by (rule fl_of_int)
  then have step: "js_add a x = a + x" by (simp only: js_add_def k)
  have rest: "list_all (\<lambda>c. c \<in> \<int> \<and> 0 \<le> c) xs" using Cons.prems(1) by simp
  have bound: "(a + x) + sum_list xs < 2 ^ 53" using Cons.prems(4) by (simp add: add.assoc)
  have "foldl js_add (a + x) xs = (a + x) + sum_list xs"
    by (rule Cons.IH[OF rest ax ge bound])
  then show ?case by (simp add: step add.assoc)
qed

lemma reduce_add_exact:
  assumes "list_all (\<lambda>c. c \<in> \<int> \<and> 0 \<le> c) xs" and "sum_list xs < 2 ^ 53"
  shows "reduce_add xs = sum_list xs"
  using reduce_add_exact_aux[OF assms(1), of 0] assms(2) by (simp add: reduce_add_def)

lemma LABOR_PERCENTAGE_value: "LABOR_PERCENTAGE = 5404319552844595 / 9007199254740992"
  unfolding LABOR_PERCENTAGE_def by code_simp

lemma MATERIALS_PERCENTAGE_value: "MATERIALS_PERCENTAGE = 5404319552844595 / 18014398509481984"
  unfolding MATERIALS_PERCENTAGE_def by code_simp

lemma OVERHEAD_PERCENTAGE_value: "OVERHEAD_PERCENTAGE = 3602879701896397 / 36028797018963968"
  unfolding OVERHEAD_PERCENTAGE_def by code_simp

lemma ilog2_upper:
  assumes "x \<noteq> 0" shows "\<bar>x\<bar> < 2 powi (ilog2 x + 1)"
proof -
  obtain p q where pq: "quotient_of \<bar>x\<bar> = (p, q)" by (cases "quotient_of \<bar>x\<bar>")
  have q: "0 < q" using pq quotient_of_denom_pos by blast
  have x: "\<bar>x\<bar> = of_int p / of_int q" using pq quotient_of_div by blast
  have "0 < \<bar>x\<bar>" using assms by simp
  then have p: "0 < p" using x q by (simp add: zero_less_divide_iff)
  define bp where "bp = floorlog 2 (nat p)"
  define bq where "bq = floorlog 2 (nat q)"
  have bp: "nat p < 2 ^ bp"
    using floorlog_bounds[of "nat p" 2] p by (auto simp: bp_def)
  have bq: "2 ^ (bq - 1) \<le> nat q"
    using floorlog_bounds[of "nat q" 2] q by (auto simp: bq_def)
  have bq0: "0 < bq" using q floorlog_eq_zero_iff[of 2 "nat q"] by (auto simp: bq_def)
  have P: "of_int p < (2::rat) ^ bp"
  proof -
    have "(of_nat (nat p) :: rat) < of_nat (2 ^ bp)" using bp of_nat_less_iff by blast
    then show ?thesis using p by simp
  qed
  have Q: "(2::rat) ^ (bq - 1) \<le> of_int q"
  proof -
    have "(of_nat (2 ^ (bq - 1)) :: rat) \<le> of_nat (nat q)" using bq of_nat_le_iff by blast
    then show ?thesis using q by simp
  qed
  have up: "\<bar>x\<bar> < (2::rat) powi (int bp - int bq + 1)"
  proof -
    have "\<bar>x\<bar> = of_int p / of_int q" by (rule x)
    also have "\<dots> < 2 ^ bp / 2 ^ (bq - 1)"
      using P Q q p by (intro frac_less) auto
    also have "\<dots> = 2 powi (int bp) / 2 powi (int (bq - 1))" by simp
    also have "\<dots> = 2 powi (int bp - int (bq - 1))"
      by (rule power_int_diff[symmetric]) simp
    also have "int bp - int (bq - 1) = int bp - int bq + 1" using bq0 by linarith
    finally show ?thesis .
  qed
  show ?thesis
    unfolding ilog2_def pq Let_def prod.case bp_def[symmetric] bq_def[symmetric]
    using up by (auto simp: not_le)
qed

lemma ilog2_eq:
  assumes "2 powi k \<le> \<bar>x\<bar>" and "\<bar>x\<bar> < 2 powi (k + 1)"
  shows "ilog2 x = k"
proof -
  have x0: "x \<noteq> 0" using assms(1)
    by (metis abs_zero not_le zero_less_numeral zero_less_power_int)
  have "(2::rat) powi k < 2 powi (ilog2 x + 1)"
    using assms(1) ilog2_upper[OF x0] by (rule le_less_trans)
  then have a: "k < ilog2 x + 1"
    by (metis less_irrefl not_less_iff_gr_or_eq one_less_numeral_iff power_int_strict_increasing
        semiring_norm(76) less_asym)
  have "(2::rat) powi (ilog2 x) < 2 powi (k + 1)"
    using ilog2_lower[OF x0] assms(2) by (rule le_less_trans)
  then have b: "ilog2 x < k + 1"
    by (metis less_irrefl not_less_iff_gr_or_eq one_less_numeral_iff power_int_strict_increasing
        semiring_norm(76) less_asym)
  show ?thesis using a b by simp
qed

lemma fl_eval:
  assumes "2 powi k \<le> \<bar>x\<bar>" and "\<bar>x\<bar> < 2 powi (k + 1)"
  shows "fl x = of_int (round_half_even (x / 2 powi (max (k - 52) (- 1074))))
                  * 2 powi (max (k - 52) (- 1074))"
proof -
  have x0: "x \<noteq> 0" using assms(1)
    by (metis abs_zero not_le zero_less_numeral zero_less_power_int)
  show ?thesis using x0 by (simp add: fl_def Let_def ilog2_eq[OF assms])
qed

lemma fl_c6: "fl (5404319552844595 / 9007199254740992) = 5404319552844595 / 9007199254740992"
  by (subst fl_eval[where k = "- 1"]) (simp_all add: round_half_even_def power_int_minus)

lemma fl_c3: "fl (5404319552844595 / 18014398509481984) = 5404319552844595 / 18014398509481984"
  by (subst fl_eval[where k = "- 2"]) (simp_all add: round_half_even_def power_int_minus)

lemma fl_c1: "fl (3602879701896397 / 36028797018963968) = 3602879701896397 / 36028797018963968"
  by (subst fl_eval[where k = "- 4"]) (simp_all add: round_half_even_def power_int_minus)

lemma unit_products:
  "js_mul 1 LABOR_PERCENTAGE = 5404319552844595 / 9007199254740992"
  "js_mul 1 MATERIALS_PERCENTAGE = 5404319552844595 / 18014398509481984"
  "js_mul 1 OVERHEAD_PERCENTAGE = 3602879701896397 / 36028797018963968"
  by (simp_all add: js_mul_def LABOR_PERCENTAGE_value MATERIALS_PERCENTAGE_value
      OVERHEAD_PERCENTAGE_value fl_c6 fl_c3 fl_c1)

section \<open>Properties of \<open>submitBid\<close>\<close>

lemma cost_breakdown_valid:
  "0 \<le> req_proposedCost r \<Longrightarrow> 1 \<le> req_teamSize r \<Longrightarrow> list_all validCostItem (cost_breakdown r)"
  by (simp add: cost_breakdown_def validCostItem_def js_mul_def fl_nonneg
      LABOR_PERCENTAGE_value MATERIALS_PERCENTAGE_value OVERHEAD_PERCENTAGE_value)

lemma fl_bound: "\<bar>fl x\<bar> \<le> 2 * \<bar>x\<bar> + 1"
proof -
  have e: "\<bar>fl x - x\<bar> \<le> \<bar>x\<bar> / 2 ^ 53 + 2 powi (- 1075)" by (rule fl_abs_error)
  have a: "\<bar>x\<bar> / 2 ^ 53 \<le> \<bar>x\<bar>" by simp
  have "(2::rat) powi (- 1075) = 1 / 2 ^ 1075" by (simp add: power_int_minus inverse_eq_divide)
  also have "\<dots> \<le> 1" by simp
  finally have b: "(2::rat) powi (- 1075) \<le> 1" .
  show ?thesis using e a b by linarith
qed

lemma FOUNDATION_PERCENTAGE_value: "FOUNDATION_PERCENTAGE = 5404319552844595 / 18014398509481984"
  unfolding FOUNDATION_PERCENTAGE_def by code_simp

lemma STRUCTURE_PERCENTAGE_value: "STRUCTURE_PERCENTAGE = 3152519739159347 / 4503599627370496"
  unfolding STRUCTURE_PERCENTAGE_def by code_simp

lemma Date_of_in_range: "\<bar>t\<bar> \<le> 8640000000000000 \<Longrightarrow> Date_of t \<noteq> None"
  by (simp add: Date_of_def)

lemma msInMonth_6: "msInMonth 6 = 15552000000"
  by (simp add: msInMonth_def js_mul_def fl_numeral)

lemma demo_schedule_valid: "list_all validMilestone (milestone_schedule (demo_request cost))"
proof -
  have s: "Date_of 9000 = Some 9000" by (simp add: Date_of_def)
  have f: "\<bar>js_mul 15552000000 FOUNDATION_PERCENTAGE\<bar> \<le> 31104000001"
    using fl_bound[of "15552000000 * FOUNDATION_PERCENTAGE"]
    by (simp add: js_mul_def FOUNDATION_PERCENTAGE_value)
  have t: "\<bar>js_mul 15552000000 STRUCTURE_PERCENTAGE\<bar> \<le> 31104000001"
    using fl_bound[of "15552000000 * STRUCTURE_PERCENTAGE"]
    by (simp add: js_mul_def STRUCTURE_PERCENTAGE_value)
  have add: "\<bar>js_add 9000 y\<bar> \<le> 8640000000000000" if "\<bar>y\<bar> \<le> 31104000001" for y
  proof -
    have "\<bar>9000 + y\<bar> \<le> 9000 + \<bar>y\<bar>" by linarith
    also have "\<dots> \<le> 31104009001" using that by simp
    finally have "2 * \<bar>9000 + y\<bar> + 1 \<le> 8640000000000000" by simp
    then show ?thesis
      unfolding js_add_def using fl_bound[of "9000 + y"] by (rule order_trans[rotated])
  qed
  have d1: "Date_of (js_add 9000 (js_mul 15552000000 FOUNDATION_PERCENTAGE)) \<noteq> None"
    by (rule Date_of_in_range[OF add[OF f]])
  have d2: "Date_of (js_add 9000 (js_mul 15552000000 STRUCTURE_PERCENTAGE)) \<noteq> None"
    by (rule Date_of_in_range[OF add[OF t]])
  have d3: "Date_of (js_add 9000 15552000000) \<noteq> None"
    by (rule Date_of_in_range[OF add]) simp
  show ?thesis
    using d1 d2 d3
    by (simp add: milestone_schedule_def calculateMilestoneDates_def demo_request_def s
        msInMonth_6 validMilestone_def FOUNDATION_PAYMENT_def STRUCTURE_PAYMENT_def
        COMPLETION_PAYMENT_def)
qed

lemma simplifiedBidData_valid:
  assumes "0 \<le> req_proposedCost r" "1 \<le> req_teamSize r"
    "Date_of (req_startDate r) = Some start" "now \<le> start"
    "1 \<le> req_duration r" "100 \<le> length (sanitizeText (req_proposal r))"
    "list_all validMilestone (milestone_schedule r)"
  shows "validateBid now (simplifiedBidData now i p v r)"
  using assms
  by (simp add: validateBid_def simplifiedBidData_def cost_breakdown_valid bid_states_def)

lemma sanitizeText_plain:
  assumes "list_all (\<lambda>c. c \<noteq> CHR ''<'' \<and> c \<noteq> CHR ''>'' \<and> \<not> is_space c) s"
  shows "sanitizeText s = s"
proof (cases "s = []")
  case True
  then show ?thesis by (simp add: sanitizeText_def)
next
  case ne: False
  have all: "\<forall>c\<in>set s. c \<noteq> CHR ''<'' \<and> c \<noteq> CHR ''>'' \<and> \<not> is_space c"
    using assms by (simp only: list_all_iff)
  have f: "filter (\<lambda>c. c \<noteq> CHR ''<'' \<and> c \<noteq> CHR ''>'') s = s"
    unfolding filter_id_conv using all by blast
  have h: "\<not> is_space (hd s)" using all hd_in_set[OF ne] by blast
  have l: "\<not> is_space (last s)" using all last_in_set[OF ne] by blast
  obtain x xs where s: "s = x # xs" using ne by (cases s) auto
  have d1: "dropWhile is_space s = s" using h unfolding s by simp
  have hr: "hd (rev s) = last s" using ne by (simp only: hd_rev)
  obtain y ys where r: "rev s = y # ys" using ne by (cases "rev s") auto
  have d2: "dropWhile is_space (rev s) = rev s" using l hr unfolding r by simp
  show ?thesis unfolding sanitizeText_def trim_def f d1 d2 using ne by simp
qed

lemma submitBid_success:
  assumes "Project_findById (svc_db st) projectId = Some project"
    and "VendorProfile_findByUser (svc_db st) vendorId = Some vendor"
    and "List.member [''OPEN'', ''IN_REVIEW''] (project_status_current project)"
    and "validateVendorEligibility vendor project = Inr True"
    and "validateBid now (simplifiedBidData now newId projectId vendor bidData)"
    and "\<not> list_ex (\<lambda>x. bid_id x = newId
                        \<or> (bid_project x = projectId \<and> bid_vendor x = vendor_id vendor))
               (bids (svc_db st))"
  shows "submitBid now newId st projectId vendorId bidData =
           (Inr (bid_pre_save True now (simplifiedBidData now newId projectId vendor bidData)),
            st\<lparr>svc_db := (svc_db st)\<lparr>bids := bids (svc_db st) @
              [bid_pre_save True now (simplifiedBidData now newId projectId vendor bidData)]\<rparr>\<rparr>)"
  using assms
  by (simp add: submitBid_def bid_save_def bid_insert_def Let_def)
     (simp add: simplifiedBidData_def bid_pre_save_def Let_def)

lemma submitBid_InrD:
  assumes "submitBid now newId st projectId vendorId bidData = (Inr b, st')"
  shows "\<exists>vendor. b = bid_pre_save True now (simplifiedBidData now newId projectId vendor bidData)
           \<and> validateBid now (simplifiedBidData now newId projectId vendor bidData)"
  using assms
  by (auto simp: submitBid_def bid_save_def Let_def
      split: option.splits if_splits sum.splits prod.splits)

lemma bid_pre_save_breakdown [simp]:
  "proposedCost_breakdown (bid_pre_save m now b) = proposedCost_breakdown b"
  "proposedCost_total (bid_pre_save m now b) = proposedCost_total b"
  "milestones (bid_pre_save m now b) = milestones b"
  by (simp_all add: bid_pre_save_def Let_def)

lemma breakdown_sum_bound:
  assumes "0 \<le> t"
  shows "\<bar>js_mul t LABOR_PERCENTAGE + js_mul t MATERIALS_PERCENTAGE + js_mul t OVERHEAD_PERCENTAGE - t\<bar>
           \<le> t / 2 ^ 52 + 2 powi (- 1073)"
proof -
  define d :: rat where "d = 2 powi (- 1075)"
  have d: "0 < d" by (simp add: d_def)
  have d4: "(2::rat) powi (- 1073) = 4 * d" by (simp add: d_def power_int_minus)
  define c6 c3 c1 :: rat where "c6 = 5404319552844595 / 9007199254740992"
    and "c3 = 5404319552844595 / 18014398509481984"
    and "c1 = 3602879701896397 / 36028797018963968"
  have e6: "\<bar>fl (t * c6) - t * c6\<bar> \<le> \<bar>t * c6\<bar> / 2 ^ 53 + d"
    unfolding d_def by (rule fl_abs_error)
  have e3: "\<bar>fl (t * c3) - t * c3\<bar> \<le> \<bar>t * c3\<bar> / 2 ^ 53 + d"
    unfolding d_def by (rule fl_abs_error)
  have e1: "\<bar>fl (t * c1) - t * c1\<bar> \<le> \<bar>t * c1\<bar> / 2 ^ 53 + d"
    unfolding d_def by (rule fl_abs_error)
  have a6: "\<bar>t * c6\<bar> = t * c6" using assms by (simp add: c6_def)
  have a3: "\<bar>t * c3\<bar> = t * c3" using assms by (simp add: c3_def)
  have a1: "\<bar>t * c1\<bar> = t * c1" using assms by (simp add: c1_def)
  have "\<bar>fl (t * c6) + fl (t * c3) + fl (t * c1) - t\<bar> \<le> t / 2 ^ 52 + 4 * d"
    using e6 e3 e1 assms d unfolding a6 a3 a1 c6_def c3_def c1_def by (simp add: abs_le_iff) 
  then show ?thesis
    by (simp only: js_mul_def LABOR_PERCENTAGE_value MATERIALS_PERCENTAGE_value
        OVERHEAD_PERCENTAGE_value c6_def c3_def c1_def d4)
qed

lemma demo_request_valid:
  assumes "0 \<le> cost"
  shows "validateBid 2000 (simplifiedBidData 2000 i p v (demo_request cost))"
proof -
  have san: "sanitizeText (req_proposal (demo_request cost)) = replicate 100 (CHR ''x'')"
    unfolding demo_request_def
    by (simp add: sanitizeText_plain list_all_iff is_space_def)
  show ?thesis
  proof (rule simplifiedBidData_valid[where start = 9000])
    show "0 \<le> req_proposedCost (demo_request cost)" using assms by (simp add: demo_request_def)
    show "1 \<le> req_teamSize (demo_request cost)" by (simp add: demo_request_def)
    show "Date_of (req_startDate (demo_request cost)) = Some 9000"
      by (simp add: demo_request_def Date_of_def)
    show "(2000::number) \<le> 9000" by simp
    show "1 \<le> req_duration (demo_request cost)" by (simp add: demo_request_def)
    show "100 \<le> length (sanitizeText (req_proposal (demo_request cost)))" by (simp add: san)
    show "list_all validMilestone (milestone_schedule (demo_request cost))"
      by (rule demo_schedule_valid)
  qed
qed

lemma demo_submit:
  assumes "0 \<le> cost"
  shows "submitBid 2000 ''b3'' demo_state ''p2'' ''uv1'' (demo_request cost) =
     (Inr (bid_pre_save True 2000
             (simplifiedBidData 2000 ''b3'' ''p2'' (demo_vendor ''v1'' ''uv1'') (demo_request cost))),
      demo_state\<lparr>svc_db := demo_db\<lparr>bids := bids demo_db @
        [bid_pre_save True 2000
           (simplifiedBidData 2000 ''b3'' ''p2'' (demo_vendor ''v1'' ''uv1'')
              (demo_request cost))]\<rparr>\<rparr>)"
proof -
  have p: "Project_findById (svc_db demo_state) ''p2'' = Some (demo_project ''p2'')"
    by (simp add: Project_findById_def demo_state_def demo_db_def demo_project_def)
  have v: "VendorProfile_findByUser (svc_db demo_state) ''uv1'' = Some (demo_vendor ''v1'' ''uv1'')"
    by (simp add: VendorProfile_findByUser_def demo_state_def demo_db_def demo_vendor_def)
  have o: "List.member [''OPEN'', ''IN_REVIEW''] (project_status_current (demo_project ''p2''))"
    by (simp add: demo_project_def)
  have e: "validateVendorEligibility (demo_vendor ''v1'' ''uv1'') (demo_project ''p2'') = Inr True"
    by (simp add: validateVendorEligibility_def demo_vendor_def demo_project_def)
  have val: "validateBid 2000
      (simplifiedBidData 2000 ''b3'' ''p2'' (demo_vendor ''v1'' ''uv1'') (demo_request cost))"
    by (rule demo_request_valid[OF assms])
  have fresh: "\<not> list_ex (\<lambda>x. bid_id x = ''b3''
        \<or> (bid_project x = ''p2'' \<and> bid_vendor x = vendor_id (demo_vendor ''v1'' ''uv1'')))
       (bids (svc_db demo_state))"
    by (simp add: demo_state_def demo_db_def demo_bid_def)
  show ?thesis
    using submitBid_success[OF p v o e val fresh] by (simp add: demo_state_def)
qed

text \<open>
  Claim C10, as the code has it. Every bid that \<open>submitBid\<close> creates has exactly three
  cost items, labor, materials and overhead in this order, whose amounts are the
  binary64 products of the proposed total with the constants 0.6, 0.3 and 0.1 (the
  binary64 values next to 60%, 30% and 10%). The amounts sum to the proposed total up to
  the rounding of these products: the difference is at most the total times \<open>2 powi - 52\<close>
  plus \<open>2 powi - 1073\<close>.
\<close>

theorem submitBid_cost_breakdown:
  assumes "submitBid now newId st projectId vendorId bidData = (Inr b, st')"
  shows "map category (proposedCost_breakdown b) = [''labor'', ''materials'', ''overhead'']
     \<and> map amount (proposedCost_breakdown b) =
         [js_mul (proposedCost_total b) LABOR_PERCENTAGE,
          js_mul (proposedCost_total b) MATERIALS_PERCENTAGE,
          js_mul (proposedCost_total b) OVERHEAD_PERCENTAGE]
     \<and> \<bar>LABOR_PERCENTAGE - 6 / 10\<bar> \<le> 1 / 2 ^ 54
     \<and> \<bar>MATERIALS_PERCENTAGE - 3 / 10\<bar> \<le> 1 / 2 ^ 55
     \<and> \<bar>OVERHEAD_PERCENTAGE - 1 / 10\<bar> \<le> 1 / 2 ^ 57
     \<and> \<bar>sum_list (map amount (proposedCost_breakdown b)) - proposedCost_total b\<bar>
           \<le> proposedCost_total b / 2 ^ 52 + 2 powi (- 1073)"
proof -
  obtain vendor where b: "b = bid_pre_save True now (simplifiedBidData now newId projectId vendor bidData)"
    and v: "validateBid now (simplifiedBidData now newId projectId vendor bidData)"
    using submitBid_InrD[OF assms] by blast
  have t: "proposedCost_total b = req_proposedCost bidData"
    by (simp add: b simplifiedBidData_def)
  have t0: "0 \<le> req_proposedCost bidData"
    using v by (simp add: validateBid_def simplifiedBidData_def)
  have bd: "proposedCost_breakdown b = cost_breakdown bidData"
    by (simp add: b simplifiedBidData_def)
  have s: "sum_list (map amount (cost_breakdown bidData)) =
        js_mul (req_proposedCost bidData) LABOR_PERCENTAGE
        + js_mul (req_proposedCost bidData) MATERIALS_PERCENTAGE
        + js_mul (req_proposedCost bidData) OVERHEAD_PERCENTAGE"
    by (simp add: cost_breakdown_def)
  have c: "\<bar>LABOR_PERCENTAGE - 6 / 10\<bar> \<le> 1 / 2 ^ 54"
    "\<bar>MATERIALS_PERCENTAGE - 3 / 10\<bar> \<le> 1 / 2 ^ 55"
    "\<bar>OVERHEAD_PERCENTAGE - 1 / 10\<bar> \<le> 1 / 2 ^ 57"
    by (simp_all add: LABOR_PERCENTAGE_value MATERIALS_PERCENTAGE_value
        OVERHEAD_PERCENTAGE_value)
  show ?thesis
    unfolding bd t s using breakdown_sum_bound[OF t0] c
    by (simp add: cost_breakdown_def)
qed

text \<open>The bound on the bid that the first vendor submits for 100000 on the second project.\<close>

theorem submitBid_cost_breakdown_witness:
  "\<exists>b st'. submitBid 2000 ''b3'' demo_state ''p2'' ''uv1'' (demo_request 100000) = (Inr b, st')
     \<and> map category (proposedCost_breakdown b) = [''labor'', ''materials'', ''overhead'']
     \<and> \<bar>sum_list (map amount (proposedCost_breakdown b)) - proposedCost_total b\<bar>
           \<le> proposedCost_total b / 2 ^ 52 + 2 powi (- 1073)"
proof -
  let ?b = "bid_pre_save True 2000
             (simplifiedBidData 2000 ''b3'' ''p2'' (demo_vendor ''v1'' ''uv1'')
                (demo_request 100000))"
  let ?st = "demo_state\<lparr>svc_db := demo_db\<lparr>bids := bids demo_db @ [?b]\<rparr>\<rparr>"
  have e: "submitBid 2000 ''b3'' demo_state ''p2'' ''uv1'' (demo_request 100000) = (Inr ?b, ?st)"
    by (rule demo_submit) simp
  note t = submitBid_cost_breakdown[OF e]
  have a: "map category (proposedCost_breakdown ?b) = [''labor'', ''materials'', ''overhead'']"
    using t by (rule conjunct1)
  have b: "\<bar>sum_list (map amount (proposedCost_breakdown ?b)) - proposedCost_total ?b\<bar>
           \<le> proposedCost_total ?b / 2 ^ 52 + 2 powi (- 1073)"
    using t by (elim conjE)
  show ?thesis
    by (rule exI[of _ ?b], rule exI[of _ ?st]) (intro conjI e a b)
qed

text \<open>
  Against C10 as stated (the amounts sum to the proposed total): for a proposed cost of
  1 the three amounts are the constants themselves, and their sum is
  \<open>1 - 2 powi - 55\<close>.
\<close>

theorem submitBid_breakdown_sum_differs:
  "(case fst (submitBid 2000 ''b3'' demo_state ''p2'' ''uv1'' (demo_request 1)) of
      Inl e \<Rightarrow> False
    | Inr b \<Rightarrow> proposedCost_total b = 1
        \<and> sum_list (map amount (proposedCost_breakdown b))
            = 36028797018963967 / 36028797018963968
        \<and> sum_list (map amount (proposedCost_breakdown b)) \<noteq> proposedCost_total b)"
proof -
  have e: "fst (submitBid 2000 ''b3'' demo_state ''p2'' ''uv1'' (demo_request 1)) =
     Inr (bid_pre_save True 2000
             (simplifiedBidData 2000 ''b3'' ''p2'' (demo_vendor ''v1'' ''uv1'') (demo_request 1)))"
    by (simp add: demo_submit)
  show ?thesis
    unfolding e
    by (simp add: simplifiedBidData_def cost_breakdown_def demo_request_def unit_products)
qed

section \<open>Properties of the eligibility check\<close>

text \<open>
  Claim C6. For a vendor whose years in business and average rating are not negative
  (the schema's \<open>min: 0\<close>), \<open>_validateVendorEligibility\<close> is the specification's check:
  it passes when no rule fails, and otherwise throws the reason of the first rule, in
  the order status, services, experience, rating, that fails. The result does not depend
  on the vendor's verification flag.
\<close>

theorem validateVendorEligibility_first_failure:
  assumes "0 \<le> yearsInBusiness v" and "0 \<le> ratings_average v"
  shows "validateVendorEligibility v p =
           (case Eligible v p of
              None \<Rightarrow> Inr True
            | Some k \<Rightarrow> Inl (ApiError 400 (eligibility_reasons ! k)))
       \<and> validateVendorEligibility (v\<lparr>isVerified := verified\<rparr>) p = validateVendorEligibility v p"
  using assms
  by (auto simp: validateVendorEligibility_def Eligible_def Eligible_rules_def
      eligibility_reasons_def not_less split: option.splits)

text \<open>
  An eligible vendor; one with 2 years against a minimum of 5; and the same one suspended,
  where the status rule wins.
\<close>

theorem validateVendorEligibility_first_failure_witness:
  "validateVendorEligibility (demo_vendor ''v1'' ''uv1'') (demo_project ''p1'') = Inr True
   \<and> validateVendorEligibility
         ((demo_vendor ''v1'' ''uv1'')\<lparr>yearsInBusiness := 2\<rparr>)
         ((demo_project ''p1'')\<lparr>minExperience := Some 5\<rparr>)
       = Inl (ApiError 400 ''Vendor does not meet minimum experience requirement'')
   \<and> validateVendorEligibility
         ((demo_vendor ''v1'' ''uv1'')\<lparr>vendor_status := ''suspended'', yearsInBusiness := 2\<rparr>)
         ((demo_project ''p1'')\<lparr>minExperience := Some 5\<rparr>)
       = Inl (ApiError 400 ''Vendor account is not active'')"
proof -
  let ?v = "demo_vendor ''v1'' ''uv1''"
  let ?p = "demo_project ''p1''"
  have r: "0 \<le> yearsInBusiness ?v" "0 \<le> ratings_average ?v"
    "0 \<le> yearsInBusiness (?v\<lparr>yearsInBusiness := 2\<rparr>)"
    "0 \<le> ratings_average (?v\<lparr>yearsInBusiness := 2\<rparr>)"
    "0 \<le> yearsInBusiness (?v\<lparr>vendor_status := ''suspended'', yearsInBusiness := 2\<rparr>)"
    "0 \<le> ratings_average (?v\<lparr>vendor_status := ''suspended'', yearsInBusiness := 2\<rparr>)"
    by (simp_all add: demo_vendor_def)
  have e: "Eligible ?v ?p = None"
    "Eligible (?v\<lparr>yearsInBusiness := 2\<rparr>) (?p\<lparr>minExperience := Some 5\<rparr>) = Some 2"
    "Eligible (?v\<lparr>vendor_status := ''suspended'', yearsInBusiness := 2\<rparr>)
       (?p\<lparr>minExperience := Some 5\<rparr>) = Some 0"
    by (simp_all add: Eligible_def Eligible_rules_def demo_vendor_def demo_project_def)
  show ?thesis
    using validateVendorEligibility_first_failure[OF r(1) r(2), of ?p]
      validateVendorEligibility_first_failure[OF r(3) r(4), of "?p\<lparr>minExperience := Some 5\<rparr>"]
      validateVendorEligibility_first_failure[OF r(5) r(6), of "?p\<lparr>minExperience := Some 5\<rparr>"]
    by (simp add: e eligibility_reasons_def)
qed

section \<open>Properties of the competitive analysis\<close>

lemma findCompetingBids_competitors:
  "set (findCompetingBids db (bid_project b) (Some (bid_id b)))
     = {x \<in> set (bids db). is_competitor b x}"
  "length (findCompetingBids db (bid_project b) (Some (bid_id b)))
     = length (filter (is_competitor b) (bids db))"
proof -
  have f: "(\<lambda>x. bid_project x = bid_project b
                \<and> List.member [''PENDING'', ''IN_REVIEW''] (status_current x)
                \<and> (case Some (bid_id b) of None \<Rightarrow> True | Some i \<Rightarrow> bid_id x \<noteq> i))
           = is_competitor b"
    by (auto simp: is_competitor_def fun_eq_iff)
  show "set (findCompetingBids db (bid_project b) (Some (bid_id b)))
     = {x \<in> set (bids db). is_competitor b x}"
    unfolding findCompetingBids_def f by simp
  show "length (findCompetingBids db (bid_project b) (Some (bid_id b)))
     = length (filter (is_competitor b) (bids db))"
    unfolding findCompetingBids_def f by simp
qed

lemma Math_min_Min: "Math_min x xs = Min (set (x # xs))"
proof -
  have "foldl min x xs = fold min xs x"
    by (induction xs arbitrary: x) (simp_all add: min.commute)
  then show ?thesis using Min.set_eq_fold[of x xs] by (simp add: Math_min_def)
qed

lemma Math_max_Max: "Math_max x xs = Max (set (x # xs))"
proof -
  have "foldl max x xs = fold max xs x"
    by (induction xs arbitrary: x) (simp_all add: max.commute)
  then show ?thesis using Max.set_eq_fold[of x xs] by (simp add: Math_max_def)
qed

text \<open>
  Claim C7. The bids that the analysis of a bid reads are exactly the specification's
  competitors. With none, every statistic is the subject bid's own cost or duration and
  the count is 1. With \<open>n > 0\<close> of them: the average cost is the Number sum of the
  costs, taken left to right, divided by \<open>n\<close> (for whole-number costs with a total below
  \<open>2 ^ 53\<close> this is the exact mean, rounded once), the median is the element at index
  \<open>n div 2\<close> of the costs sorted ascending, the range is their least and greatest, the
  average duration is computed as the average cost is, and the count is \<open>n + 1\<close>. On a
  cache miss \<open>getCompetitiveAnalysis\<close> returns these statistics as \<open>market\<close>.
\<close>

theorem competitive_statistics:
  "set (findCompetingBids db (bid_project b) (Some (bid_id b)))
      = {x \<in> set (bids db). is_competitor b x}
   \<and> length (findCompetingBids db (bid_project b) (Some (bid_id b)))
      = length (filter (is_competitor b) (bids db))
   \<and> calculateBidStatistics b [] =
        \<lparr>averageCost = proposedCost_total b, medianCost = proposedCost_total b,
         costRange_min = proposedCost_total b, costRange_max = proposedCost_total b,
         averageDuration = estimatedDuration_value b, bidCount = 1\<rparr>
   \<and> (cs \<noteq> [] \<longrightarrow>
        calculateBidStatistics b cs =
          \<lparr>averageCost =
             js_div (reduce_add (map proposedCost_total cs)) (of_nat (length cs)),
           medianCost = sort (map proposedCost_total cs) ! (length cs div 2),
           costRange_min = Min (set (map proposedCost_total cs)),
           costRange_max = Max (set (map proposedCost_total cs)),
           averageDuration =
             js_div (reduce_add (map estimatedDuration_value cs)) (of_nat (length cs)),
           bidCount = length cs + 1\<rparr>)
   \<and> (cs \<noteq> [] \<and> list_all (\<lambda>x. proposedCost_total x \<in> \<int> \<and> 0 \<le> proposedCost_total x) cs
        \<and> sum_list (map proposedCost_total cs) < 2 ^ 53 \<longrightarrow>
        averageCost (calculateBidStatistics b cs) =
          fl (sum_list (map proposedCost_total cs) / of_nat (length cs)))
   \<and> (TTLCache_get now (''competitive_analysis_'' @ bidId) (bidCache st) = (None, c)
        \<and> Bid_findById (svc_db st) bidId = Some b \<longrightarrow>
        fst (getCompetitiveAnalysis now st bidId) =
          Inr \<lparr>a_cost = proposedCost_total b, a_duration = estimatedDuration_value b,
               market = calculateBidStatistics b
                          (findCompetingBids (svc_db st) (bid_project b) (Some (bid_id b)))\<rparr>)"
proof (intro conjI impI)
  assume "cs \<noteq> []"
  then obtain x xs' where cs: "cs = x # xs'" by (cases cs) auto
  show "calculateBidStatistics b cs =
          \<lparr>averageCost =
             js_div (reduce_add (map proposedCost_total cs)) (of_nat (length cs)),
           medianCost = sort (map proposedCost_total cs) ! (length cs div 2),
           costRange_min = Min (set (map proposedCost_total cs)),
           costRange_max = Max (set (map proposedCost_total cs)),
           averageDuration =
             js_div (reduce_add (map estimatedDuration_value cs)) (of_nat (length cs)),
           bidCount = length cs + 1\<rparr>"
    unfolding cs by (simp add: calculateBidStatistics_def Let_def Math_min_Min Math_max_Max)
next
  assume a: "cs \<noteq> [] \<and> list_all (\<lambda>x. proposedCost_total x \<in> \<int> \<and> 0 \<le> proposedCost_total x) cs
        \<and> sum_list (map proposedCost_total cs) < 2 ^ 53"
  then obtain x xs' where cs: "cs = x # xs'" by (cases cs) auto
  have "list_all (\<lambda>c. c \<in> \<int> \<and> 0 \<le> c) (map proposedCost_total cs)"
    using a by (simp add: list_all_iff)
  then have "reduce_add (map proposedCost_total cs) = sum_list (map proposedCost_total cs)"
    using a by (intro reduce_add_exact) simp_all
  then show "averageCost (calculateBidStatistics b cs) =
          fl (sum_list (map proposedCost_total cs) / of_nat (length cs))"
    unfolding cs by (simp add: calculateBidStatistics_def Let_def js_div_def)
next
  assume "TTLCache_get now (''competitive_analysis_'' @ bidId) (bidCache st) = (None, c)
        \<and> Bid_findById (svc_db st) bidId = Some b"
  then show "fst (getCompetitiveAnalysis now st bidId) =
          Inr \<lparr>a_cost = proposedCost_total b, a_duration = estimatedDuration_value b,
               market = calculateBidStatistics b
                          (findCompetingBids (svc_db st) (bid_project b) (Some (bid_id b)))\<rparr>"
    by (simp add: getCompetitiveAnalysis_def Let_def)
qed (simp_all add: findCompetingBids_competitors calculateBidStatistics_def)

text \<open>The analysis of the third bid (90000) against the bids of 100000 and 120000.\<close>

theorem competitive_statistics_witness:
  "fst (getCompetitiveAnalysis 2000
          \<lparr>svc_db = demo_db3, bidCache = [], projectBidsCache = []\<rparr> ''b3'') =
     Inr \<lparr>a_cost = 90000, a_duration = 6,
          market = \<lparr>averageCost = 110000, medianCost = 120000,
                    costRange_min = 100000, costRange_max = 120000,
                    averageDuration = 6, bidCount = 3\<rparr>\<rparr>"
proof -
  let ?st = "\<lparr>svc_db = demo_db3, bidCache = [], projectBidsCache = []\<rparr>"
  let ?b = "demo_bid ''b3'' ''p1'' ''v3'' 90000"
  let ?cs = "[demo_bid ''b1'' ''p1'' ''v1'' 100000, demo_bid ''b2'' ''p1'' ''v2'' 120000]"
  have miss: "TTLCache_get 2000 (''competitive_analysis_'' @ ''b3'') (bidCache ?st) = (None, [])"
    by (simp add: TTLCache_get_def)
  have found: "Bid_findById (svc_db ?st) ''b3'' = Some ?b"
    by (simp add: Bid_findById_def demo_db3_def demo_db_def demo_bid_def)
  have comp: "findCompetingBids (svc_db ?st) (bid_project ?b) (Some (bid_id ?b)) = ?cs"
    by (simp add: findCompetingBids_def demo_db3_def demo_db_def demo_bid_def)
  have ne: "?cs \<noteq> []" by simp
  have whole: "list_all (\<lambda>x. proposedCost_total x \<in> \<int> \<and> 0 \<le> proposedCost_total x) ?cs
        \<and> sum_list (map proposedCost_total ?cs) < 2 ^ 53"
    by (simp add: demo_bid_def)
  note t = competitive_statistics[where db = "svc_db ?st" and b = ?b and cs = ?cs
            and now = 2000 and bidId = "''b3''" and st = ?st and c = "[]"]
  have stats: "calculateBidStatistics ?b ?cs =
          \<lparr>averageCost =
             js_div (reduce_add (map proposedCost_total ?cs)) (of_nat (length ?cs)),
           medianCost = sort (map proposedCost_total ?cs) ! (length ?cs div 2),
           costRange_min = Min (set (map proposedCost_total ?cs)),
           costRange_max = Max (set (map proposedCost_total ?cs)),
           averageDuration =
             js_div (reduce_add (map estimatedDuration_value ?cs)) (of_nat (length ?cs)),
           bidCount = length ?cs + 1\<rparr>"
    using t ne by blast
  have res: "fst (getCompetitiveAnalysis 2000 ?st ''b3'') =
          Inr \<lparr>a_cost = proposedCost_total ?b, a_duration = estimatedDuration_value ?b,
               market = calculateBidStatistics ?b
                          (findCompetingBids (svc_db ?st) (bid_project ?b) (Some (bid_id ?b)))\<rparr>"
    using t miss found by blast
  have vals: "map proposedCost_total ?cs = [100000, 120000]"
    "map estimatedDuration_value ?cs = [6, 6]"
    "proposedCost_total ?b = 90000" "estimatedDuration_value ?b = 6"
    by (simp_all add: demo_bid_def)
  show ?thesis
    unfolding res comp stats vals
    by (simp add: reduce_add_def js_add_def js_div_def fl_numeral)
qed

section \<open>Properties of \<open>selectBid\<close>\<close>

text \<open>
  The selection of the first bid when every write succeeds: the bid is accepted, the
  other bid of the project is rejected and the project is in progress.
\<close>

lemma normal_run:
  "(case selectBid None 2000 demo_state ''b1'' ''p1'' ''uc1'' of
      (r, st') \<Rightarrow>
        map_sum id (\<lambda>(b, p). (bid_id b, status_current b, project_id p, project_status_current p)) r
          = Inr (''b1'', ''ACCEPTED'', ''p1'', ''IN_PROGRESS'')
        \<and> map (\<lambda>b. (bid_id b, status_current b)) (bids (svc_db st'))
            = [(''b1'', ''ACCEPTED''), (''b2'', ''REJECTED'')]
        \<and> map (\<lambda>p. (project_id p, project_status_current p)) (projects (svc_db st'))
            = [(''p1'', ''IN_PROGRESS''), (''p2'', ''OPEN'')])"
  by (simp add: select_defs demo_defs)

text \<open>
  The same selection when the server rejects \<open>project.save({ session })\<close>: the two saves
  of \<open>bid.updateStatus\<close> were made without the session and stay, the bulk rejection
  made with the session is dropped.
\<close>

lemma fault_run:
  "(case selectBid (Some SaveProject) 2000 demo_state ''b1'' ''p1'' ''uc1'' of
      (r, st') \<Rightarrow>
        r = Inl (ApiError 500 ''Error selecting bid'')
        \<and> map (\<lambda>b. (bid_id b, status_current b)) (bids (svc_db st'))
            = [(''b1'', ''ACCEPTED''), (''b2'', ''PENDING'')]
        \<and> map (\<lambda>p. (project_id p, project_status_current p)) (projects (svc_db st'))
            = [(''p1'', ''OPEN''), (''p2'', ''OPEN'')])"
  by (simp add: select_defs demo_defs)

text \<open>
  \<open>selectBid\<close> never compares \<open>bid.project\<close> with \<open>projectId\<close>. The client selects
  the second bid, which is on the first project, under the id of the second project it
  owns, and then the first bid under the first project: the bulk rejection of the second
  call skips the second bid, which is no longer pending.
\<close>

lemma two_accepted:
  "map (\<lambda>b. (bid_id b, bid_project b, status_current b))
     (bids (svc_db (snd (selectBid None 3000
                           (snd (selectBid None 2000 demo_state ''b2'' ''p2'' ''uc1''))
                           ''b1'' ''p1'' ''uc1''))))
   = [(''b1'', ''p1'', ''ACCEPTED''), (''b2'', ''p1'', ''ACCEPTED'')]"
  by (simp add: select_defs demo_defs)

text \<open>
  Claim C1 says that a project has at most one accepted bid, and that a failed selection
  leaves no accepted bid behind. Both fail. When \<open>project.save\<close> is rejected,
  \<open>selectBid\<close> answers with status 500 and the first bid stays \<open>ACCEPTED\<close> while the
  second bid is still \<open>PENDING\<close> and the project still \<open>OPEN\<close>: the saves of
  \<open>bid.updateStatus\<close> run outside the transaction that the \<open>catch\<close> aborts. And two
  successful selections, the first under the id of another project of the same client,
  leave both bids of the first project \<open>ACCEPTED\<close>.
\<close>

theorem selectBid_partial_and_double_acceptance:
  "(case selectBid (Some SaveProject) 2000 demo_state ''b1'' ''p1'' ''uc1'' of
      (r, st') \<Rightarrow>
        r = Inl (ApiError 500 ''Error selecting bid'')
        \<and> map (\<lambda>b. (bid_id b, status_current b)) (bids (svc_db st'))
            = [(''b1'', ''ACCEPTED''), (''b2'', ''PENDING'')]
        \<and> map (\<lambda>p. (project_id p, project_status_current p)) (projects (svc_db st'))
            = [(''p1'', ''OPEN''), (''p2'', ''OPEN'')])
   \<and> map (\<lambda>b. (bid_id b, bid_project b, status_current b))
       (bids (svc_db (snd (selectBid None 3000
                             (snd (selectBid None 2000 demo_state ''b2'' ''p2'' ''uc1''))
                             ''b1'' ''p1'' ''uc1''))))
      = [(''b1'', ''p1'', ''ACCEPTED''), (''b2'', ''p1'', ''ACCEPTED'')]"
  using fault_run two_accepted by (rule conjI)

text \<open>
  Claim C4. When the client's profile and the project it owns are found and the bid is
  already \<open>ACCEPTED\<close>, \<open>selectBid\<close> returns the bid and the project as stored, without
  an error and whatever write would fail, and leaves the database and the caches as they
  were: no transition, no history entry.
\<close>

theorem selectBid_idempotent_on_accepted:
  assumes "getClientProfile (svc_db st) clientId = Inr clientProfile"
    and "Bid_findById (svc_db st) bidId = Some b"
    and "status_current b = ''ACCEPTED''"
    and "Project_findOwned (svc_db st) projectId (client_id clientProfile) = Some project"
  shows "selectBid fault now st bidId projectId clientId = (Inr (b, project), st)"
  using assms by (simp add: selectBid_def)

text \<open>
  The first bid is selected at time 2000; the second call at time 3000 returns the same
  bid and project and the same state.
\<close>

theorem selectBid_idempotent_on_accepted_witness:
  "\<exists>b p st1. selectBid None 2000 demo_state ''b1'' ''p1'' ''uc1'' = (Inr (b, p), st1)
      \<and> status_current b = ''ACCEPTED''
      \<and> selectBid None 3000 st1 ''b1'' ''p1'' ''uc1'' = (Inr (b, p), st1)"
proof -
  have "\<exists>b p st1. selectBid None 2000 demo_state ''b1'' ''p1'' ''uc1'' = (Inr (b, p), st1)
      \<and> getClientProfile (svc_db st1) ''uc1'' = Inr \<lparr>client_id = ''c1'', client_user = ''uc1''\<rparr>
      \<and> Bid_findById (svc_db st1) ''b1'' = Some b
      \<and> status_current b = ''ACCEPTED''
      \<and> Project_findOwned (svc_db st1) ''p1'' ''c1'' = Some p"
    by (simp add: select_defs demo_defs)
  then obtain b p st1 where
    first: "selectBid None 2000 demo_state ''b1'' ''p1'' ''uc1'' = (Inr (b, p), st1)"
    and c: "getClientProfile (svc_db st1) ''uc1'' = Inr \<lparr>client_id = ''c1'', client_user = ''uc1''\<rparr>"
    and f: "Bid_findById (svc_db st1) ''b1'' = Some b"
    and a: "status_current b = ''ACCEPTED''"
    and o: "Project_findOwned (svc_db st1) ''p1''
              (client_id \<lparr>client_id = ''c1'', client_user = ''uc1''\<rparr>) = Some p"
    by auto
  have "selectBid None 3000 st1 ''b1'' ''p1'' ''uc1'' = (Inr (b, p), st1)"
    by (rule selectBid_idempotent_on_accepted[OF c f a o])
  then show ?thesis using first a by blast
qed

section \<open>Properties of a second submission\<close>




section \<open>Properties of the milestone schedule\<close>

lemma milestones_sum_pre_save [simp]:
  "milestones_sum (bid_pre_save m now b) = milestones_sum b"
  by (simp add: milestones_sum_def)

lemma list_all_replace_bid:
  "list_all P bs \<Longrightarrow> P b \<Longrightarrow> list_all P (replace_bid b bs)"
  by (induction bs) (auto simp: replace_bid_def)

lemma Bid_findById_list_all:
  "Bid_findById db i = Some b \<Longrightarrow> list_all P (bids db) \<Longrightarrow> P b"
  by (auto simp: Bid_findById_def find_Some_iff list_all_iff)

lemma bid_save_keeps_sums:
  assumes "bid_save isNew now db b = Inr (b', db')"
    and "list_all (\<lambda>x. milestones_sum x = 100) (bids db)" and "milestones_sum b = 100"
  shows "list_all (\<lambda>x. milestones_sum x = 100) (bids db') \<and> milestones_sum b' = 100"
  using assms
  by (auto simp: bid_save_def bid_insert_def bid_update_def Let_def list_all_replace_bid
      split: if_splits sum.splits option.splits)

lemma updateStatus_keeps_sums:
  assumes "updateStatus now db b n r = Inr (b', db')"
    and "list_all (\<lambda>x. milestones_sum x = 100) (bids db)" and "milestones_sum b = 100"
  shows "list_all (\<lambda>x. milestones_sum x = 100) (bids db') \<and> milestones_sum b' = 100"
proof -
  obtain b1 where d: "updateStatus_doc b n r now = Inr b1"
    and s: "bid_save False now db b1 = Inr (b', db')"
    using assms(1) by (auto simp: updateStatus_def split: sum.splits)
  have "milestones b1 = milestones b"
    using d by (auto simp: updateStatus_doc_def split: if_splits property_lookup.splits)
  then have "milestones_sum b1 = 100" using assms(3) by (simp add: milestones_sum_def)
  then show ?thesis using bid_save_keeps_sums[OF s assms(2)] by simp
qed

lemma reject_others_keeps_sums:
  "list_all (\<lambda>x. milestones_sum x = 100) (reject_others now p i bs) = list_all (\<lambda>x. milestones_sum x = 100) bs"
  by (induction bs) (auto simp: reject_others_def milestones_sum_def)

lemma submitBid_keeps_sums:
  assumes "persisted_milestones_sum_100 st"
  shows "persisted_milestones_sum_100 (snd (submitBid now newId st projectId vendorId bidData))"
proof (cases "fst (submitBid now newId st projectId vendorId bidData)")
  case (Inl e)
  then have "snd (submitBid now newId st projectId vendorId bidData) = st"
    by (auto simp: submitBid_def split: option.splits if_splits sum.splits prod.splits)
  then show ?thesis using assms by simp
next
  case (Inr b)
  obtain vendor db' where
    s: "bid_save True now (svc_db st) (simplifiedBidData now newId projectId vendor bidData)
          = Inr (b, db')"
    and st': "snd (submitBid now newId st projectId vendorId bidData) = st\<lparr>svc_db := db'\<rparr>"
    using Inr
    by (auto simp: submitBid_def split: option.splits if_splits sum.splits prod.splits)
  have "milestones_sum (simplifiedBidData now newId projectId vendor bidData) = 100"
    by (simp add: milestones_sum_def simplifiedBidData_def milestone_schedule_def
        FOUNDATION_PAYMENT_def STRUCTURE_PAYMENT_def COMPLETION_PAYMENT_def split: prod.splits)
  then show ?thesis
    using bid_save_keeps_sums[OF s] assms by (simp add: st' persisted_milestones_sum_100_def)
qed

lemma clearProjectBidCaches_db [simp]: "svc_db (clearProjectBidCaches p st) = svc_db st"
  by (simp add: clearProjectBidCaches_def)

lemma selectBid_transaction_keeps_sums:
  assumes "list_all (\<lambda>x. milestones_sum x = 100) (bids (svc_db st))" and "milestones_sum b = 100"
  shows "persisted_milestones_sum_100
           (snd (selectBid_transaction fault now st b project bidId projectId))"
proof -
  define r1 where "r1 =
    (if status_current b = ''PENDING''
     then (if fault = Some SaveInReview then Inl OtherError
           else updateStatus now (svc_db st) b ''IN_REVIEW'' (Some ''Bid under final review''))
     else Inr (b, svc_db st))"
  show ?thesis
  proof (cases r1)
    case (Inl e)
    then show ?thesis
      using assms unfolding selectBid_transaction_def r1_def[symmetric]
      by (simp add: persisted_milestones_sum_100_def)
  next
    case (Inr bd1)
    obtain b1 db1 where bd1: "bd1 = (b1, db1)" by (cases bd1)
    have ok1: "list_all (\<lambda>x. milestones_sum x = 100) (bids db1) \<and> milestones_sum b1 = 100"
      using Inr assms unfolding r1_def bd1
      by (auto split: if_splits dest: updateStatus_keeps_sums)
    define r2 where "r2 =
      (if fault = Some SaveAccepted then Inl OtherError
       else updateStatus now db1 b1 ''ACCEPTED'' (Some ''Selected by client''))"
    show ?thesis
    proof (cases r2)
      case (Inl e)
      then show ?thesis
        using ok1 Inr unfolding selectBid_transaction_def r1_def[symmetric] bd1
        by (simp add: r2_def[symmetric] persisted_milestones_sum_100_def)
    next
      case r2: (Inr bd2)
      obtain b2 db2 where bd2: "bd2 = (b2, db2)" by (cases bd2)
      have ok2: "list_all (\<lambda>x. milestones_sum x = 100) (bids db2) \<and> milestones_sum b2 = 100"
        using r2 ok1 unfolding r2_def bd2
        by (auto split: if_splits dest: updateStatus_keeps_sums)
      show ?thesis
        using ok2 Inr r2 unfolding selectBid_transaction_def r1_def[symmetric] bd1
        by (simp add: r2_def[symmetric] bd2 persisted_milestones_sum_100_def Let_def
            reject_others_keeps_sums split: sum.splits prod.splits)
    qed
  qed
qed

lemma selectBid_keeps_sums:
  assumes "persisted_milestones_sum_100 st"
  shows "persisted_milestones_sum_100 (snd (selectBid fault now st bidId projectId clientId))"
proof -
  have a: "list_all (\<lambda>x. milestones_sum x = 100) (bids (svc_db st))"
    using assms by (simp add: persisted_milestones_sum_100_def)
  show ?thesis
    using assms a selectBid_transaction_keeps_sums[OF a]
    by (auto simp: selectBid_def split: sum.splits option.splits dest: Bid_findById_list_all)
qed

lemma rejectBid_keeps_sums:
  assumes "persisted_milestones_sum_100 st"
  shows "persisted_milestones_sum_100 (snd (rejectBid now st bidId projectId clientId reason))"
proof -
  have a: "list_all (\<lambda>x. milestones_sum x = 100) (bids (svc_db st))"
    using assms by (simp add: persisted_milestones_sum_100_def)
  show ?thesis
    using assms a
    by (auto simp: rejectBid_def Let_def persisted_milestones_sum_100_def
        split: sum.splits option.splits prod.splits
        dest!: updateStatus_keeps_sums dest: Bid_findById_list_all)
qed

lemma addNegotiation_keeps_sums:
  assumes "addNegotiation now db b nd i = Inr (n, b', db')"
    and "list_all (\<lambda>x. milestones_sum x = 100) (bids db)" and "milestones_sum b = 100"
  shows "list_all (\<lambda>x. milestones_sum x = 100) (bids db')"
proof -
  let ?b1 = "b\<lparr>negotiations := negotiations b @
      [\<lparr>n_initiator = i, n_type = nd_type nd, n_message = nd_message nd,
        n_status = ''pending'', n_timestamp = now\<rparr>]\<rparr>"
  have s: "bid_save False now db ?b1 = Inr (b', db')"
    using assms(1) by (auto simp: addNegotiation_def Let_def split: sum.splits prod.splits)
  have "milestones_sum ?b1 = 100" using assms(3) by (simp add: milestones_sum_def)
  then show ?thesis using bid_save_keeps_sums[OF s assms(2)] by simp
qed

lemma negotiateBid_keeps_sums:
  assumes "persisted_milestones_sum_100 st"
  shows "persisted_milestones_sum_100 (snd (negotiateBid now st bidId nd i))"
proof -
  have a: "list_all (\<lambda>x. milestones_sum x = 100) (bids (svc_db st))"
    using assms by (simp add: persisted_milestones_sum_100_def)
  show ?thesis
    using assms a
    by (auto simp: negotiateBid_def Let_def persisted_milestones_sum_100_def
        split: sum.splits option.splits prod.splits
        dest!: addNegotiation_keeps_sums dest: Bid_findById_list_all)
qed

lemma deleteBid_keeps_sums:
  assumes "persisted_milestones_sum_100 st"
  shows "persisted_milestones_sum_100 (snd (deleteBid st bidId vendorId))"
  using assms
  by (auto simp: deleteBid_def persisted_milestones_sum_100_def list_all_iff
      split: option.splits)

lemma deleteProject_keeps_sums:
  assumes "persisted_milestones_sum_100 st"
  shows "persisted_milestones_sum_100 (snd (deleteProject st projectId clientId))"
  using assms
  by (auto simp: deleteProject_def persisted_milestones_sum_100_def list_all_iff
      split: option.splits)

lemma Object_assign_milestones:
  "milestones (Object_assign b (sanitizeUpdateData u)) =
     (case patch_timeline u of None \<Rightarrow> milestones b | Some (start, dur, ms) \<Rightarrow> ms)"
  by (simp add: Object_assign_def sanitizeUpdateData_def Let_def split: option.splits prod.splits)

lemma updateBid_keeps_sums:
  assumes "persisted_milestones_sum_100 st" and "patch_timeline u = None"
  shows "persisted_milestones_sum_100 (snd (updateBid now st bidId vendorId u))"
proof -
  have a: "list_all (\<lambda>x. milestones_sum x = 100) (bids (svc_db st))"
    using assms by (simp add: persisted_milestones_sum_100_def)
  have k: "\<And>b. milestones_sum b = 100 \<Longrightarrow> milestones_sum (Object_assign b (sanitizeUpdateData u)) = 100"
    using assms(2) by (simp add: milestones_sum_def Object_assign_milestones)
  show ?thesis
    using assms a
    by (auto simp: updateBid_def Let_def persisted_milestones_sum_100_def
        split: sum.splits option.splits prod.splits
        dest!: bid_save_keeps_sums dest: Bid_findById_list_all k)
qed

lemma bid_id_Object_assign [simp]:
  "bid_id (Object_assign b (sanitizeUpdateData u)) = bid_id b"
  by (simp add: Object_assign_def sanitizeUpdateData_def Let_def split: option.splits prod.splits)

lemma updateBid_stores_patched_schedule:
  assumes "updateBid now st bidId vendorId u = (Inr b, st')"
    and "patch_timeline u = Some (start, dur, ms)"
  shows "milestones b = ms \<and> Bid_findById (svc_db st') bidId = Some b"
proof -
  obtain b0 db' where f: "Bid_findById (svc_db st) bidId = Some b0"
    and s: "bid_save False now (svc_db st) (Object_assign b0 (sanitizeUpdateData u)) = Inr (b, db')"
    and st': "st' = st\<lparr>svc_db := db'\<rparr>"
    using assms(1)
    by (auto simp: updateBid_def split: option.splits if_splits sum.splits prod.splits)
  let ?b1 = "Object_assign b0 (sanitizeUpdateData u)"
  have i: "bid_id b0 = bidId" using f by (auto simp: Bid_findById_def find_Some_iff)
  have v: "validateBid now ?b1" using s by (auto simp: bid_save_def split: if_splits)
  have n: "Bid_findById (svc_db st) (bid_id ?b1) \<noteq> None" using f i by simp
  have e: "b = bid_pre_save (bid_isModified_status (svc_db st) ?b1) now ?b1"
    "db' = (svc_db st)\<lparr>bids := replace_bid b (bids (svc_db st))\<rparr>"
    using s unfolding bid_save_loaded[OF v n] by auto
  have m: "milestones b = ms"
    using assms(2) by (simp add: e(1) Object_assign_milestones)
  have "find (\<lambda>x. bid_id x = bid_id b) (bids (svc_db st)) \<noteq> None"
    using n by (simp add: e(1) Bid_findById_def)
  then have "find (\<lambda>x. bid_id x = bid_id b) (replace_bid b (bids (svc_db st))) = Some b"
    by (rule find_replace_bid)
  moreover have "bid_id b = bidId" using i by (simp add: e(1))
  ultimately have "Bid_findById (svc_db st') bidId = Some b"
    by (simp add: st' e(2) Bid_findById_def)
  then show ?thesis using m by simp
qed

lemma submitBid_creates_sum_100:
  assumes "submitBid now newId st projectId vendorId bidData = (Inr b, st')"
  shows "milestones_sum b = 100"
proof -
  obtain vendor where "b = bid_pre_save True now (simplifiedBidData now newId projectId vendor bidData)"
    using submitBid_InrD[OF assms] by blast
  then show ?thesis
    by (simp add: milestones_sum_def simplifiedBidData_def milestone_schedule_def
        FOUNDATION_PAYMENT_def STRUCTURE_PAYMENT_def COMPLETION_PAYMENT_def split: prod.splits)
qed

lemma demo_state_sums: "persisted_milestones_sum_100 demo_state"
  by (simp add: persisted_milestones_sum_100_def milestones_sum_def demo_state_def demo_db_def
      demo_bid_def)

text \<open>
  Claim C8, as the code has it. The milestone percentages of every bid that \<open>submitBid\<close>
  creates sum to 100, and when those of every stored bid do, they still do after
  \<open>submitBid\<close>, \<open>selectBid\<close> (whatever write fails), \<open>rejectBid\<close>, \<open>negotiateBid\<close>,
  \<open>deleteBid\<close> and \<open>deleteProject\<close>, and after an \<open>updateBid\<close> whose body has no
  timeline. An \<open>updateBid\<close> whose body has a timeline stores the milestones of the body
  as they are, whatever their sum.
\<close>

theorem milestone_sums_preserved:
  assumes "persisted_milestones_sum_100 st"
  shows "(\<forall>b st'. submitBid now newId st projectId vendorId bidData = (Inr b, st')
            \<longrightarrow> milestones_sum b = 100)
     \<and> persisted_milestones_sum_100 (snd (submitBid now newId st projectId vendorId bidData))
     \<and> persisted_milestones_sum_100 (snd (selectBid fault now st bidId projectId clientId))
     \<and> persisted_milestones_sum_100 (snd (rejectBid now st bidId projectId clientId reason))
     \<and> persisted_milestones_sum_100 (snd (negotiateBid now st bidId negotiationData initiator))
     \<and> persisted_milestones_sum_100 (snd (deleteBid st bidId vendorId))
     \<and> persisted_milestones_sum_100 (snd (deleteProject st projectId clientProfileId))
     \<and> (patch_timeline updateData = None \<longrightarrow>
          persisted_milestones_sum_100 (snd (updateBid now st bidId vendorId updateData)))
     \<and> (\<forall>b st' start dur ms.
           updateBid now st bidId vendorId updateData = (Inr b, st')
           \<and> patch_timeline updateData = Some (start, dur, ms)
           \<longrightarrow> milestones b = ms \<and> Bid_findById (svc_db st') bidId = Some b)"
proof (intro conjI allI impI)
  fix b st'
  assume "submitBid now newId st projectId vendorId bidData = (Inr b, st')"
  then show "milestones_sum b = 100" by (rule submitBid_creates_sum_100)
next
  assume "patch_timeline updateData = None"
  then show "persisted_milestones_sum_100 (snd (updateBid now st bidId vendorId updateData))"
    by (rule updateBid_keeps_sums[OF assms])
next
  fix b st' start dur ms
  assume a: "updateBid now st bidId vendorId updateData = (Inr b, st')
           \<and> patch_timeline updateData = Some (start, dur, ms)"
  show "milestones b = ms"
    using updateBid_stores_patched_schedule[of now st bidId vendorId updateData b st'] a by simp
  show "Bid_findById (svc_db st') bidId = Some b"
    using updateBid_stores_patched_schedule[of now st bidId vendorId updateData b st'] a by simp
qed (simp_all only: submitBid_keeps_sums[OF assms] selectBid_keeps_sums[OF assms]
      rejectBid_keeps_sums[OF assms] negotiateBid_keeps_sums[OF assms]
      deleteBid_keeps_sums[OF assms] deleteProject_keeps_sums[OF assms])

text \<open>
  On the marketplace: a submission, a selection, an update of the cost alone, and an
  update of the timeline, which stores the one milestone of 50 percent.
\<close>

theorem milestone_sums_preserved_witness:
  "persisted_milestones_sum_100 demo_state
   \<and> persisted_milestones_sum_100
        (snd (submitBid 2000 ''b3'' demo_state ''p2'' ''uv1'' (demo_request 100000)))
   \<and> milestones_sum
        (bid_pre_save True 2000
           (simplifiedBidData 2000 ''b3'' ''p2'' (demo_vendor ''v1'' ''uv1'')
              (demo_request 100000))) = 100
   \<and> persisted_milestones_sum_100 (snd (selectBid None 2000 demo_state ''b1'' ''p1'' ''uc1''))
   \<and> persisted_milestones_sum_100
        (snd (updateBid 2000 demo_state ''b1'' ''uv1''
                (demo_patch\<lparr>patch_timeline := None, patch_proposedCost := Some (95000, [])\<rparr>)))
   \<and> (\<exists>b st'. updateBid 2000 demo_state ''b1'' ''uv1'' demo_patch = (Inr b, st')
         \<and> map paymentPercentage (milestones b) = [50])"
proof -
  let ?u = "demo_patch\<lparr>patch_timeline := None, patch_proposedCost := Some (95000, [])\<rparr>"
  let ?b3 = "bid_pre_save True 2000
           (simplifiedBidData 2000 ''b3'' ''p2'' (demo_vendor ''v1'' ''uv1'')
              (demo_request 100000))"
  note t = milestone_sums_preserved[OF demo_state_sums]
  have none: "patch_timeline ?u = None" by simp
  have some: "patch_timeline demo_patch = Some (9000, 6,
        [\<lparr>m_title = ''Handover'', expectedCompletionDate = Some 15552009000,
           paymentPercentage = 50\<rparr>])"
    by (simp add: demo_patch_def)
  have "\<exists>b st'. updateBid 2000 demo_state ''b1'' ''uv1'' demo_patch = (Inr b, st')"
    by (simp add: updateBid_def VendorProfile_findByUser_def Bid_findById_def
        Object_assign_def sanitizeUpdateData_def demo_patch_def bid_save_def validateBid_def
        validCostItem_def validMilestone_def bid_states_def bid_pre_save_def Date_of_def
        bid_isModified_status_def bid_update_def replace_bid_def Let_def demo_defs)
  then obtain b st' where u: "updateBid 2000 demo_state ''b1'' ''uv1'' demo_patch = (Inr b, st')"
    by blast
  have m: "milestones b = [\<lparr>m_title = ''Handover'', expectedCompletionDate = Some 15552009000,
           paymentPercentage = 50\<rparr>]"
    using t[where now = 2000 and bidId = "''b1''" and vendorId = "''uv1''"
              and updateData = demo_patch] u some
    by blast
  have s: "submitBid 2000 ''b3'' demo_state ''p2'' ''uv1'' (demo_request 100000) =
      (Inr ?b3, demo_state\<lparr>svc_db := demo_db\<lparr>bids := bids demo_db @ [?b3]\<rparr>\<rparr>)"
    by (rule demo_submit) simp
  have c: "milestones_sum ?b3 = 100"
    using t[where now = 2000 and newId = "''b3''" and projectId = "''p2''"
              and vendorId = "''uv1''" and bidData = "demo_request 100000"] s
    by blast
  have p1: "persisted_milestones_sum_100
        (snd (submitBid 2000 ''b3'' demo_state ''p2'' ''uv1'' (demo_request 100000)))"
    by (rule t[where now = 2000 and newId = "''b3''" and projectId = "''p2''"
              and vendorId = "''uv1''" and bidData = "demo_request 100000",
              THEN conjunct2, THEN conjunct1])
  have p2: "persisted_milestones_sum_100
              (snd (selectBid None 2000 demo_state ''b1'' ''p1'' ''uc1''))"
    by (rule t[where fault = None and now = 2000 and bidId = "''b1''" and projectId = "''p1''"
              and clientId = "''uc1''", THEN conjunct2, THEN conjunct2, THEN conjunct1])
  have p3: "persisted_milestones_sum_100 (snd (updateBid 2000 demo_state ''b1'' ''uv1'' ?u))"
    using t[where now = 2000 and bidId = "''b1''" and vendorId = "''uv1''"
              and updateData = ?u] none
    by blast
  have e: "\<exists>b st'. updateBid 2000 demo_state ''b1'' ''uv1'' demo_patch = (Inr b, st')
         \<and> map paymentPercentage (milestones b) = [50]"
    using u m by simp
  show ?thesis
    using demo_state_sums p1 c p2 p3 e by (intro conjI)
qed

text \<open>
  Against C8 as stated (every update preserves the sum): the first vendor replaces the
  timeline of its pending bid, and the stored percentages of that bid sum to 50.
\<close>

theorem updateBid_breaks_milestone_sum:
  "persisted_milestones_sum_100 demo_state
   \<and> map milestones_sum (bids (svc_db (snd (updateBid 2000 demo_state ''b1'' ''uv1'' demo_patch))))
       = [50, 100]
   \<and> \<not> persisted_milestones_sum_100 (snd (updateBid 2000 demo_state ''b1'' ''uv1'' demo_patch))"
proof -
  have m: "map milestones_sum
             (bids (svc_db (snd (updateBid 2000 demo_state ''b1'' ''uv1'' demo_patch))))
       = [50, 100]"
    by (simp add: updateBid_def VendorProfile_findByUser_def Bid_findById_def
        Object_assign_def sanitizeUpdateData_def demo_patch_def bid_save_def validateBid_def
        validCostItem_def validMilestone_def bid_states_def bid_pre_save_def Date_of_def
        bid_isModified_status_def bid_update_def replace_bid_def milestones_sum_def Let_def
        demo_state_def demo_db_def demo_bid_def demo_vendor_def)
  have "list_all (\<lambda>x. x = 100)
          (map milestones_sum
             (bids (svc_db (snd (updateBid 2000 demo_state ''b1'' ''uv1'' demo_patch)))))
        = False"
    unfolding m by simp
  then have "\<not> persisted_milestones_sum_100
                 (snd (updateBid 2000 demo_state ''b1'' ''uv1'' demo_patch))"
    by (simp add: persisted_milestones_sum_100_def list_all_iff)
  then show ?thesis using m demo_state_sums by simp
qed

section \<open>Properties of the cache invalidation\<close>

lemma caches_untouched:
  "bidCache (snd (submitBid now newId st projectId vendorId bidData)) = bidCache st"
  "projectBidsCache (snd (submitBid now newId st projectId vendorId bidData)) = projectBidsCache st"
  "bidCache (snd (updateBid now st bidId vendorId updateData)) = bidCache st"
  "projectBidsCache (snd (updateBid now st bidId vendorId updateData)) = projectBidsCache st"
  "bidCache (snd (rejectBid now st bidId projectId clientId reason)) = bidCache st"
  "projectBidsCache (snd (rejectBid now st bidId projectId clientId reason)) = projectBidsCache st"
  "bidCache (snd (negotiateBid now st bidId negotiationData initiator)) = bidCache st"
  "projectBidsCache (snd (negotiateBid now st bidId negotiationData initiator))
     = projectBidsCache st"
  "bidCache (snd (deleteProject st projectId clientProfileId)) = bidCache st"
  "projectBidsCache (snd (deleteProject st projectId clientProfileId)) = projectBidsCache st"
  by (auto simp: submitBid_def updateBid_def rejectBid_def negotiateBid_def deleteProject_def
      Let_def split: option.splits sum.splits prod.splits)

lemma demo_analysed:
  "svc_db demo_analysed_state = demo_db"
  "projectBidsCache demo_analysed_state = projectBidsCache demo_cached_state"
  "map (\<lambda>p. (fst p, bidCount (market (c_value (snd p))), expiresAt (snd p)))
     (bidCache demo_analysed_state) = [(''competitive_analysis_b1'', 2, 302000)]"
  by (simp_all add: demo_analysed_state_def demo_cached_state_def getCompetitiveAnalysis_def
      TTLCache_get_def TTLCache_set_def CACHE_MAX_SIZE_def CACHE_TTL_def js_add_def fl_numeral
      Bid_findById_def findCompetingBids_def calculateBidStatistics_def Let_def demo_defs)

lemma demo_analysed_cache:
  "\<exists>a. bidCache demo_analysed_state =
          [(''competitive_analysis_b1'', \<lparr>c_value = a, expiresAt = 302000\<rparr>)]
       \<and> bidCount (market a) = 2"
  by (simp add: demo_analysed_state_def demo_cached_state_def getCompetitiveAnalysis_def
      TTLCache_get_def TTLCache_set_def CACHE_MAX_SIZE_def CACHE_TTL_def js_add_def fl_numeral
      Bid_findById_def findCompetingBids_def calculateBidStatistics_def Let_def demo_defs)

lemma demo_rejected_bids:
  "map (\<lambda>b. (bid_id b, status_current b)) (bids (svc_db demo_rejected_state))
     = [(''b1'', ''PENDING''), (''b2'', ''REJECTED'')]"
  by (simp add: demo_rejected_state_def rejectBid_def demo_analysed(1) sanitizeText_def trim_def
      is_space_def select_defs demo_defs)

text \<open>
  Claim C9 says that every mutating operation invalidates the cache keys it can affect.
  \<open>selectBid\<close> and \<open>deleteBid\<close> call \<open>_clearProjectBidCaches\<close>; \<open>submitBid\<close>,
  \<open>updateBid\<close>, \<open>rejectBid\<close>, \<open>negotiateBid\<close> and \<open>deleteProject\<close> leave both caches
  exactly as they were. After the second bid has been rejected at time 2100, the cached
  page of the project's bids, read at time 2200, still lists it as \<open>PENDING\<close>, and the
  cached analysis of the first bid still counts two bids where a fresh computation
  counts one.
\<close>

theorem writes_leave_cached_reads_stale:
  "bidCache (snd (submitBid now newId st projectId vendorId bidData)) = bidCache st
   \<and> projectBidsCache (snd (submitBid now newId st projectId vendorId bidData))
       = projectBidsCache st
   \<and> bidCache (snd (updateBid now st bidId vendorId updateData)) = bidCache st
   \<and> projectBidsCache (snd (updateBid now st bidId vendorId updateData)) = projectBidsCache st
   \<and> bidCache (snd (rejectBid now st bidId projectId clientId reason)) = bidCache st
   \<and> projectBidsCache (snd (rejectBid now st bidId projectId clientId reason))
       = projectBidsCache st
   \<and> bidCache (snd (negotiateBid now st bidId negotiationData initiator)) = bidCache st
   \<and> projectBidsCache (snd (negotiateBid now st bidId negotiationData initiator))
       = projectBidsCache st
   \<and> bidCache (snd (deleteProject st projectId clientProfileId)) = bidCache st
   \<and> projectBidsCache (snd (deleteProject st projectId clientProfileId)) = projectBidsCache st
   \<and> map (\<lambda>b. (bid_id b, status_current b)) (bids (svc_db demo_rejected_state))
       = [(''b1'', ''PENDING''), (''b2'', ''REJECTED'')]
   \<and> map_option (\<lambda>pg. map (\<lambda>b. (bid_id b, status_current b)) (page_bids pg))
         (fst (TTLCache_get 2200 ''project_bids_p1_all_1_20''
                 (projectBidsCache demo_rejected_state)))
       = Some [(''b1'', ''PENDING''), (''b2'', ''PENDING'')]
   \<and> map_sum id (\<lambda>a. bidCount (market a))
         (fst (getCompetitiveAnalysis 2200 demo_rejected_state ''b1'')) = Inr 2
   \<and> bidCount (calculateBidStatistics (demo_bid ''b1'' ''p1'' ''v1'' 100000)
                 (findCompetingBids (svc_db demo_rejected_state) ''p1'' (Some ''b1''))) = 1"
proof -
  obtain a where c: "bidCache demo_analysed_state =
          [(''competitive_analysis_b1'', \<lparr>c_value = a, expiresAt = 302000\<rparr>)]"
    and n: "bidCount (market a) = 2"
    using demo_analysed_cache by blast
  have bc: "bidCache demo_rejected_state = bidCache demo_analysed_state"
    by (simp add: demo_rejected_state_def caches_untouched)
  have pc: "projectBidsCache demo_rejected_state = projectBidsCache demo_cached_state"
    by (simp add: demo_rejected_state_def caches_untouched demo_analysed(2))
  have page: "map_option (\<lambda>pg. map (\<lambda>b. (bid_id b, status_current b)) (page_bids pg))
         (fst (TTLCache_get 2200 ''project_bids_p1_all_1_20''
                 (projectBidsCache demo_rejected_state)))
       = Some [(''b1'', ''PENDING''), (''b2'', ''PENDING'')]"
    unfolding pc by (simp add: demo_cached_state_def TTLCache_get_def demo_defs)
  have stale: "map_sum id (\<lambda>a. bidCount (market a))
         (fst (getCompetitiveAnalysis 2200 demo_rejected_state ''b1'')) = Inr 2"
    by (simp add: getCompetitiveAnalysis_def bc c n TTLCache_get_def)
  have cs: "findCompetingBids (svc_db demo_rejected_state) ''p1'' (Some ''b1'') = []"
    by (simp add: findCompetingBids_def demo_rejected_state_def rejectBid_def demo_analysed(1)
        sanitizeText_def trim_def is_space_def select_defs demo_defs)
  have fresh: "bidCount (calculateBidStatistics (demo_bid ''b1'' ''p1'' ''v1'' 100000)
                 (findCompetingBids (svc_db demo_rejected_state) ''p1'' (Some ''b1''))) = 1"
    unfolding cs by (simp add: calculateBidStatistics_def)
  show ?thesis
    using page stale fresh demo_rejected_bids by (simp add: caches_untouched)
qed

end
